theory Spec2Isabelle
  imports Complex_Main "HOL-Library.Log_Nat"
begin

section \<open>Python values, errors and the plotting library\<close>

text \<open>
  The functions of \<^verbatim>\<open>plot_functions.py\<close> receive dynamically typed arguments.
  The values that matter to their checks are modelled by one datatype: the checks are
  \<^verbatim>\<open>isinstance(array, list)\<close>, \<^verbatim>\<open>isinstance(array, np.ndarray)\<close>,
  \<^verbatim>\<open>isinstance(label, str)\<close> and \<^verbatim>\<open>use_label is not None\<close>.
  Numbers inside a sequence are rationals.
\<close>

datatype pyval =
    PyNone
  | PyInt int
  | PyStr string
  | PyList "rat list"
  | PyTuple "rat list"
  | PyNdarray "rat list"
  | PyDict "(pyval \<times> pyval) list"

fun isinstance_list :: "pyval \<Rightarrow> bool" where
  "isinstance_list (PyList xs) = True"
| "isinstance_list v = False"

fun isinstance_ndarray :: "pyval \<Rightarrow> bool" where
  "isinstance_ndarray (PyNdarray xs) = True"
| "isinstance_ndarray v = False"

fun isinstance_str :: "pyval \<Rightarrow> bool" where
  "isinstance_str (PyStr s) = True"
| "isinstance_str v = False"

fun isinstance_dict :: "pyval \<Rightarrow> bool" where
  "isinstance_dict (PyDict kvs) = True"
| "isinstance_dict v = False"

text \<open>
  The messages of the \<^verbatim>\<open>ValueError\<close>s, one constructor per \<^verbatim>\<open>raise\<close> of the
  source, carrying the values the source formats into the text:
  \<^item> \<open>ArrayNotList\<close>: "array needs to be a list of values!" (line 46);
  \<^item> \<open>StyleNotSupported style available\<close>: "style_sheet=... is not in the supported
    styles: ..." (lines 53 and 134);
  \<^item> \<open>LinestyleNotSupported style\<close>: "linestyle=... is not in the styles: ...!"
    (lines 61 and 148);
  \<^item> \<open>NotADictionary\<close>: "array needs to be a dictionary of values!" (line 119);
  \<^item> \<open>KeysNotStrings\<close>: "dict_arrays needs string keys!" (line 124);
  \<^item> \<open>ValuesNotLists\<close>: "dict_arrays needs lists values!" (line 127);
  \<^item> \<open>LengthMismatch\<close>: "y_true needs to have same length as y_pred!" (line 213);
  \<^item> \<open>ZeroSizeReduction\<close>: raised by numpy, not by this repository, when
    \<^verbatim>\<open>cm.max()\<close> is taken of an array with no element;
  \<^item> \<open>TickLabelCount positions labels\<close>: raised by matplotlib, not by this repository,
    when \<^verbatim>\<open>ax.set\<close> is given tick labels whose number is not the number of tick
    positions of the axis.
\<close>

datatype message =
    ArrayNotList
  | StyleNotSupported string "string list"
  | LinestyleNotSupported string
  | NotADictionary
  | KeysNotStrings
  | ValuesNotLists
  | LengthMismatch
  | ZeroSizeReduction
  | TickLabelCount nat nat

datatype error =
    ValueError message
  | AssertionError
  | IndexError
  | TypeError
  | AttributeError

text \<open>\<^verbatim>\<open>len(x)\<close>: defined on sized values, a \<^verbatim>\<open>TypeError\<close> otherwise.\<close>

fun py_len :: "pyval \<Rightarrow> error + nat" where
  "py_len (PyList xs) = Inr (length xs)"
| "py_len (PyTuple xs) = Inr (length xs)"
| "py_len (PyNdarray xs) = Inr (length xs)"
| "py_len (PyStr s) = Inr (length s)"
| "py_len (PyDict kvs) = Inr (length kvs)"
| "py_len PyNone = Inl TypeError"
| "py_len (PyInt i) = Inl TypeError"

text \<open>
  \<^verbatim>\<open>d.items()\<close>: the key and value pairs of a dictionary in insertion order; other
  values have no such method. A dictionary is the list of its items, whose keys are
  distinct in Python.
\<close>

fun py_items :: "pyval \<Rightarrow> error + (pyval \<times> pyval) list" where
  "py_items (PyDict kvs) = Inr kvs"
| "py_items v = Inl AttributeError"

text \<open>
  numpy floating-point values (\<^verbatim>\<open>float64\<close>): a finite double is the rational number it
  denotes, and the three special values that a division by zero produces are kept
  apart.
\<close>

datatype fl = Fin rat | PInf | NInf | NaN

text \<open>A two-dimensional numpy array, as the list of its rows, with its dtype.\<close>

datatype ndarray2 = IntArr "int list list" | FloatArr "fl list list"

text \<open>The tick labels handed to the axes: the list of class names, or \<^verbatim>\<open>set(y_true)\<close>.\<close>

datatype ticklabels = TickNames "string list" | TickSet "int set"

text \<open>
  The calls into matplotlib, with the arguments the source passes. Arguments that are
  constants of the source are not repeated: \<open>Legend\<close> is \<^verbatim>\<open>plt.legend(loc='best')\<close>,
  \<open>Imshow cm cmap\<close> is \<^verbatim>\<open>ax.imshow(cm, interpolation='nearest', cmap=cmap)\<close>,
  \<open>AxSet xticks yticks labels title\<close> is the \<^verbatim>\<open>ax.set(...)\<close> call of lines 243 to 249
  (both axes get the same tick labels), \<open>SetpXTickLabels\<close> is the \<^verbatim>\<open>plt.setp\<close> call
  of line 251, and \<open>AxText j i value fmt white\<close> is \<^verbatim>\<open>ax.text(j, i, format(value, fmt), ...)\<close>
  with colour white or black.
\<close>

datatype call =
    Subplot int int int
  | Plot "rat list" pyval string pyval
  | Title "string option"
  | Xlabel "string option"
  | Ylabel "string option"
  | Legend
  | Grid bool
  | TightLayout
  | SetSizeInches rat rat
  | Savefig string int
  | Show
  | Subplots
  | Imshow ndarray2 string
  | Colorbar
  | AxSet "nat list" "nat list" ticklabels string
  | SetpXTickLabels
  | AxText nat nat fl string bool

datatype printed = PrintStr string | PrintArr ndarray2

text \<open>
  The state outside the functions: matplotlib's global state and standard output.
  \<open>style_available\<close> is \<^verbatim>\<open>plt.style.available\<close>; \<open>style_applied\<close> lists the style
  sheets that \<^verbatim>\<open>plt.style.use\<close> has applied, the latest last; \<open>fig_size\<close> is the size
  of the current figure and \<open>rc_figsize\<close> the size a new figure gets
  (\<^verbatim>\<open>rcParams['figure.figsize']\<close>); \<open>style_rc\<close> gives, for the style sheets that set
  it, the figure size a sheet writes into the parameters; \<open>calls\<close> is the log of
  rendering calls, which includes every file written (\<open>Savefig\<close>) and every figure
  displayed (\<open>Show\<close>).
\<close>

record plt =
  style_available :: "string list"
  style_rc :: "(string \<times> (rat \<times> rat)) list"
  style_applied :: "string list"
  rc_figsize :: "rat \<times> rat"
  fig_size :: "rat \<times> rat"
  calls :: "call list"
  stdout :: "printed list"

text \<open>
  \<^verbatim>\<open>plt.style.use(name)\<close> rewrites the parameters with the settings of the sheet.
  Of the parameters, the state keeps the figure size, which the functions read back
  through the figures they create; the other settings of a sheet (colours, fonts,
  grids) are stood for by the sheet's name in \<open>style_applied\<close>.
\<close>

definition style_use :: "string \<Rightarrow> plt \<Rightarrow> plt" where
  "style_use name s =
    s\<lparr>style_applied := style_applied s @ [name],
      rc_figsize := (case map_of (style_rc s) name of
                       None \<Rightarrow> rc_figsize s
                     | Some wh \<Rightarrow> wh)\<rparr>"

text \<open>
  A rendering call is recorded in the log. The library can refuse a call (a figure
  size that is not positive, a path that cannot be written); of these refusals the
  model has the one of \<^verbatim>\<open>ax.set\<close> below, so every call that returns with the library
  returns in the model.
\<close>

definition emit :: "call \<Rightarrow> plt \<Rightarrow> plt" where
  "emit c s = s\<lparr>calls := calls s @ [c]\<rparr>"

definition set_size_inches :: "rat \<times> rat \<Rightarrow> plt \<Rightarrow> plt" where
  "set_size_inches wh s = (emit (SetSizeInches (fst wh) (snd wh)) s)\<lparr>fig_size := wh\<rparr>"

definition subplots :: "plt \<Rightarrow> plt" where
  "subplots s = (emit Subplots s)\<lparr>fig_size := rc_figsize s\<rparr>"

text \<open>
  \<^verbatim>\<open>ax.set(xticks=..., yticks=..., xticklabels=labels, yticklabels=labels, ...)\<close>:
  the tick positions of both axes are fixed first, then the labels are set, and
  matplotlib raises a \<^verbatim>\<open>ValueError\<close> for labels that are not empty and whose number
  differs from the number of positions of the axis. The number of labels is
  \<^verbatim>\<open>len(classes)\<close> for a list of names and the number of elements of the set
  \<^verbatim>\<open>set(y_true)\<close>.
\<close>

fun tick_count :: "ticklabels \<Rightarrow> nat" where
  "tick_count (TickNames names) = length names"
| "tick_count (TickSet labels) = card labels"

definition ax_set ::
    "nat list \<Rightarrow> nat list \<Rightarrow> ticklabels \<Rightarrow> string \<Rightarrow> plt \<Rightarrow> (error + unit) \<times> plt" where
  "ax_set xticks yticks labels heading s =
    (let s = emit (AxSet xticks yticks labels heading) s;
         n = tick_count labels
     in if n \<noteq> 0 \<and> n \<noteq> length xticks
        then (Inl (ValueError (TickLabelCount (length xticks) n)), s)
        else if n \<noteq> 0 \<and> n \<noteq> length yticks
        then (Inl (ValueError (TickLabelCount (length yticks) n)), s)
        else (Inr (), s))"

definition print :: "printed \<Rightarrow> plt \<Rightarrow> plt" where
  "print p s = s\<lparr>stdout := stdout s @ [p]\<rparr>"

definition linestyles :: "string list" where
  "linestyles = [''-'', ''--'', ''-.'', '':'']"

text \<open>\<^verbatim>\<open>np.array(range(1, n + 1)) * step_size\<close>\<close>

definition steps_of :: "nat \<Rightarrow> rat \<Rightarrow> rat list" where
  "steps_of n step_size = map (\<lambda>k. of_nat k * step_size) [1..<n + 1]"

section \<open>plot_array\<close>

text \<open>The keyword options shared by \<^verbatim>\<open>plot_array\<close> and \<^verbatim>\<open>plot_dict\<close>.\<close>

record plot_opts =
  step_size :: rat
  use_title :: "string option"
  use_xlabel :: "string option"
  use_ylabel :: "string option"
  style_sheet :: string
  use_grid :: bool
  width :: rat
  height :: rat
  use_dpi :: int
  path :: "string option"
  show_plot :: bool

record array_opts = plot_opts +
  use_label :: pyval
  use_linestyle :: string

definition plot_array :: "pyval \<Rightarrow> array_opts \<Rightarrow> plt \<Rightarrow> (error + unit) \<times> plt" where
  "plot_array array opts s =
    (if \<not> isinstance_list array \<or> isinstance_ndarray array
     then (Inl (ValueError ArrayNotList), s)
     else if style_sheet opts \<in> set (style_available s)
     then
       (let s = style_use (style_sheet opts) s in
        if use_linestyle opts \<notin> set linestyles
        then (Inl (ValueError (LinestyleNotSupported (use_linestyle opts))), s)
        else
          (case py_len array of
             Inl e \<Rightarrow> (Inl e, s)
           | Inr n \<Rightarrow>
              (let steps = steps_of n (step_size opts);
                   s = emit (Subplot 1 2 1) s;
                   s = emit (Plot steps array (use_linestyle opts) (use_label opts)) s;
                   s = emit (Title (use_title opts)) s;
                   s = emit (Xlabel (use_xlabel opts)) s;
                   s = emit (Ylabel (use_ylabel opts)) s;
                   s = (if use_label opts \<noteq> PyNone then emit Legend s else s);
                   s = emit (Grid (use_grid opts)) s;
                   s = emit TightLayout s;
                   figsize = fig_size s;
                   figsize = (fst figsize * width opts, snd figsize * height opts);
                   s = set_size_inches figsize s;
                   s = (case path opts of Some p \<Rightarrow> emit (Savefig p (use_dpi opts)) s | None \<Rightarrow> s);
                   s = (if show_plot opts then emit Show s else s)
               in (Inr (), s))))
     else (Inl (ValueError (StyleNotSupported (style_sheet opts) (style_available s))), s))"

section \<open>plot_dict\<close>

record dict_opts = plot_opts +
  use_linestyles :: "string list option"

text \<open>The loop of lines 120 to 127: every key a string, every value a list.\<close>

fun check_items :: "(pyval \<times> pyval) list \<Rightarrow> error + unit" where
  "check_items [] = Inr ()"
| "check_items ((label, array) # rest) =
    (if \<not> isinstance_str label then Inl (ValueError KeysNotStrings)
     else if \<not> isinstance_list array \<or> isinstance_ndarray array
     then Inl (ValueError ValuesNotLists)
     else check_items rest)"

text \<open>The loop of lines 144 to 148: the first unsupported line style is reported.\<close>

fun check_linestyles :: "string list \<Rightarrow> error + unit" where
  "check_linestyles [] = Inr ()"
| "check_linestyles (linestyle # rest) =
    (if linestyle \<notin> set linestyles
     then Inl (ValueError (LinestyleNotSupported linestyle))
     else check_linestyles rest)"

text \<open>
  The loop of lines 152 to 156 over \<^verbatim>\<open>enumerate(dict_arrays.items())\<close>, from position
  \<open>index\<close> on. The arguments of \<^verbatim>\<open>plt.plot\<close> are evaluated before the call, so
  \<^verbatim>\<open>use_linestyles[index]\<close> out of range raises before the series is plotted.
  (\<open>styles\<close> and \<open>label\<close> are the source's \<^verbatim>\<open>use_linestyles\<close> and
  \<^verbatim>\<open>use_label\<close>, which name options here.)
\<close>

fun plot_series :: "rat \<Rightarrow> string list \<Rightarrow> nat \<Rightarrow> (pyval \<times> pyval) list \<Rightarrow> plt \<Rightarrow> (error + unit) \<times> plt" where
  "plot_series step styles index [] s = (Inr (), s)"
| "plot_series step styles index ((label, array) # rest) s =
    (case py_len array of
       Inl e \<Rightarrow> (Inl e, s)
     | Inr n \<Rightarrow>
        (let steps = steps_of n step in
         if index < length styles
         then plot_series step styles (Suc index) rest
                (emit (Plot steps array (styles ! index) label) s)
         else (Inl IndexError, s)))"

definition plot_dict :: "pyval \<Rightarrow> dict_opts \<Rightarrow> plt \<Rightarrow> (error + unit) \<times> plt" where
  "plot_dict dict_arrays opts s =
    (if \<not> isinstance_dict dict_arrays
     then (Inl (ValueError NotADictionary), s)
     else
       (case py_items dict_arrays of
          Inl e \<Rightarrow> (Inl e, s)
        | Inr items \<Rightarrow>
           (case check_items items of
              Inl e \<Rightarrow> (Inl e, s)
            | Inr u \<Rightarrow>
               if style_sheet opts \<in> set (style_available s)
               then
                 (let s = style_use (style_sheet opts) s in
                  case (case use_linestyles opts of
                          None \<Rightarrow> Inr (replicate (length items) ''-'')
                        | Some ls \<Rightarrow>
                           (case check_linestyles ls of Inl e \<Rightarrow> Inl e | Inr u \<Rightarrow> Inr ls)) of
                    Inl e \<Rightarrow> (Inl e, s)
                  | Inr styles \<Rightarrow>
                     (let s = emit (Subplot 1 2 1) s in
                      case plot_series (step_size opts) styles 0 items s of
                        (Inl e, s) \<Rightarrow> (Inl e, s)
                      | (Inr u, s) \<Rightarrow>
                         (let s = emit (Title (use_title opts)) s;
                              s = emit (Xlabel (use_xlabel opts)) s;
                              s = emit (Ylabel (use_ylabel opts)) s;
                              s = emit Legend s;
                              s = emit (Grid (use_grid opts)) s;
                              s = emit TightLayout s;
                              figsize = fig_size s;
                              figsize = (fst figsize * width opts, snd figsize * height opts);
                              s = set_size_inches figsize s;
                              s = (case path opts of
                                     Some p \<Rightarrow> emit (Savefig p (use_dpi opts)) s
                                   | None \<Rightarrow> s);
                              s = (if show_plot opts then emit Show s else s)
                          in (Inr (), s))))
               else (Inl (ValueError (StyleNotSupported (style_sheet opts) (style_available s))), s))))"

section \<open>plot_confusion_matrix\<close>

text \<open>
  Modelled from the spec: \<^verbatim>\<open>sklearn.metrics.confusion_matrix\<close> is a function of an
  external library and is not among the sources. The spec's glossary calls the
  confusion matrix "a table of counts of predicted vs. true classification labels";
  row \<open>i\<close> is true class \<open>i\<close> and column \<open>j\<close> is predicted class \<open>j\<close>. As the library
  documents it, the classes are the labels that occur in \<^verbatim>\<open>y_true\<close> or in
  \<^verbatim>\<open>y_pred\<close>, in sorted order. Labels are integers here.
\<close>

definition unique_labels :: "int list \<Rightarrow> int list \<Rightarrow> int list" where
  "unique_labels y_true y_pred = sort (remdups (y_true @ y_pred))"

text \<open>How often true label \<open>t\<close> is paired with predicted label \<open>p\<close>.\<close>

definition pair_count :: "int list \<Rightarrow> int list \<Rightarrow> int \<Rightarrow> int \<Rightarrow> nat" where
  "pair_count y_true y_pred t p =
    length (filter (\<lambda>tp. fst tp = t \<and> snd tp = p) (zip y_true y_pred))"

definition confusion_matrix :: "int list \<Rightarrow> int list \<Rightarrow> int list list" where
  "confusion_matrix y_true y_pred =
    (let labels = unique_labels y_true y_pred in
     map (\<lambda>t. map (\<lambda>p. int (pair_count y_true y_pred t p)) labels) labels)"

text \<open>
  Rounding to a double: the nearest number with a significand of 53 bits, a tie going
  to the even significand. For \<open>0 < x\<close>, \<open>float_exponent x\<close> is the \<open>e\<close> with
  \<open>2 powi e \<le> x < 2 powi (e + 1)\<close>, found from the bit lengths of numerator and
  denominator, and the doubles from \<open>2 powi e\<close> to \<open>2 powi (e + 1)\<close> are the multiples
  of \<open>2 powi (e - 52)\<close>. The range of the exponent
  of a double is left out: the numbers rounded here are counts, bounded by the
  length of a list, and quotients of two such counts, far from overflow and
  underflow for any list that fits in memory. For the same reason the 64-bit integers
  of the count matrix are integers.
\<close>

definition float_exponent :: "rat \<Rightarrow> int" where
  "float_exponent x =
    (let (p, q) = quotient_of x;
         k = bitlen p - bitlen q
     in if 2 powi k \<le> x then k else k - 1)"

definition round_half_even :: "rat \<Rightarrow> int" where
  "round_half_even y =
    (let f = \<lfloor>y\<rfloor>; d = y - of_int f
     in if d < 1 / 2 then f
        else if 1 / 2 < d then f + 1
        else if even f then f else f + 1)"

definition round64 :: "rat \<Rightarrow> rat" where
  "round64 x =
    (if x = 0 then 0
     else
       (let e = float_exponent \<bar>x\<bar>;
            ulp = 2 powi (e - 52)
        in sgn x * of_int (round_half_even (\<bar>x\<bar> / ulp)) * ulp))"

text \<open>The conversion of an integer to a double, as in \<^verbatim>\<open>cm.astype('float')\<close>.\<close>

definition float_of_int :: "int \<Rightarrow> rat" where
  "float_of_int c = round64 (of_int c)"

text \<open>
  numpy's true division of doubles: the quotient is rounded to a double; a division by
  zero does not raise, it gives \<open>NaN\<close> for \<open>0 / 0\<close> and an infinity otherwise.
\<close>

definition fl_div :: "rat \<Rightarrow> rat \<Rightarrow> fl" where
  "fl_div a b =
    (if b = 0 then (if a = 0 then NaN else if 0 < a then PInf else NInf)
     else Fin (round64 (a / b)))"

text \<open>
  \<^verbatim>\<open>cm.astype('float') / cm.sum(axis=1)[:, np.newaxis]\<close>: each row by its own sum.
  The counts become doubles, the integer sum of the row becomes a double for the
  division, and each quotient is rounded.
\<close>

definition normalize_row :: "int list \<Rightarrow> fl list" where
  "normalize_row row =
    map (\<lambda>c. fl_div (float_of_int c) (float_of_int (sum_list row))) row"

definition normalize_rows :: "int list list \<Rightarrow> fl list list" where
  "normalize_rows cm = map normalize_row cm"

text \<open>The entries of an array as floats, and its shape.\<close>

fun cells :: "ndarray2 \<Rightarrow> fl list list" where
  "cells (IntArr rows) = map (map (\<lambda>c. Fin (of_int c))) rows"
| "cells (FloatArr rows) = rows"

definition shape0 :: "ndarray2 \<Rightarrow> nat" where
  "shape0 cm = length (cells cm)"

definition shape1 :: "ndarray2 \<Rightarrow> nat" where
  "shape1 cm = (case cells cm of [] \<Rightarrow> 0 | row # rest \<Rightarrow> length row)"

text \<open>
  \<^verbatim>\<open>cm.max()\<close>: numpy propagates \<open>NaN\<close>, and refuses an array with no element.
\<close>

fun fl_max :: "fl \<Rightarrow> fl \<Rightarrow> fl" where
  "fl_max NaN b = NaN"
| "fl_max a NaN = NaN"
| "fl_max PInf b = PInf"
| "fl_max a PInf = PInf"
| "fl_max NInf b = b"
| "fl_max a NInf = a"
| "fl_max (Fin x) (Fin y) = Fin (max x y)"

definition arr_max :: "ndarray2 \<Rightarrow> error + fl" where
  "arr_max cm =
    (case concat (cells cm) of
       [] \<Rightarrow> Inl (ValueError ZeroSizeReduction)
     | x # xs \<Rightarrow> Inr (foldl fl_max x xs))"

fun fl_half :: "fl \<Rightarrow> fl" where
  "fl_half (Fin x) = Fin (x / 2)"
| "fl_half a = a"

text \<open>\<open>fl_gt a b\<close> is \<^verbatim>\<open>a > b\<close>: false whenever an operand is \<open>NaN\<close>.\<close>

fun fl_gt :: "fl \<Rightarrow> fl \<Rightarrow> bool" where
  "fl_gt NaN b = False"
| "fl_gt a NaN = False"
| "fl_gt a PInf = False"
| "fl_gt NInf b = False"
| "fl_gt PInf b = True"
| "fl_gt a NInf = True"
| "fl_gt (Fin x) (Fin y) = (y < x)"

text \<open>The loops of lines 257 to 261: one text annotation per cell, row by row.\<close>

definition annotate :: "ndarray2 \<Rightarrow> string \<Rightarrow> fl \<Rightarrow> plt \<Rightarrow> plt" where
  "annotate cm fmt thresh s =
    fold (\<lambda>ij. emit (AxText (snd ij) (fst ij) (cells cm ! fst ij ! snd ij) fmt
                        (fl_gt (cells cm ! fst ij ! snd ij) thresh)))
         (List.product [0..<shape0 cm] [0..<shape1 cm]) s"

text \<open>
  The keyword options of \<^verbatim>\<open>plot_confusion_matrix\<close>. \<open>classes\<close> is the list of label
  names after \<^verbatim>\<open>list(classes)\<close>; the default \<^verbatim>\<open>''\<close> gives the empty list. A colour
  map is known by its name.
\<close>

record cm_opts =
  classes :: "string list"
  normalize :: bool
  title :: "string option"
  cmap :: string
  image :: "string option"
  verbose :: int
  magnify :: rat
  dpi :: int

text \<open>Python's truth value of an optional string: \<^verbatim>\<open>None\<close> and \<^verbatim>\<open>''\<close> are false.\<close>

fun truthy :: "string option \<Rightarrow> bool" where
  "truthy None = False"
| "truthy (Some str) = (str \<noteq> [])"

definition plot_confusion_matrix ::
    "int list \<Rightarrow> int list \<Rightarrow> cm_opts \<Rightarrow> plt \<Rightarrow> (error + ndarray2) \<times> plt" where
  "plot_confusion_matrix y_true y_pred opts s =
    (if length y_true \<noteq> length y_pred
     then (Inl (ValueError LengthMismatch), s)
     else
       (case (if classes opts \<noteq> []
              then (if card (set y_true) = length (classes opts)
                    then Inr (TickNames (classes opts)) else Inl AssertionError)
              else Inr (TickSet (set y_true))) of
          Inl e \<Rightarrow> (Inl e, s)
        | Inr ticks \<Rightarrow>
           (let heading = (if \<not> truthy (title opts)
                         then (if normalize opts then ''Normalized confusion matrix''
                               else ''Confusion matrix, without normalization'')
                         else the (title opts));
                cm = confusion_matrix y_true y_pred;
                cm = (if normalize opts then FloatArr (normalize_rows cm) else IntArr cm);
                s = (if normalize opts then print (PrintStr ''Normalized confusion matrix'') s
                     else print (PrintStr ''Confusion matrix, without normalization'') s);
                s = (if 0 < verbose opts then print (PrintArr cm) s else s);
                s = subplots s;
                s = emit (Imshow cm (cmap opts)) s;
                s = emit Colorbar s
            in case ax_set [0..<shape1 cm] [0..<shape0 cm] ticks heading s of
                 (Inl e, s) \<Rightarrow> (Inl e, s)
               | (Inr u, s) \<Rightarrow>
                  (let s = emit SetpXTickLabels s;
                       s = emit (Grid False) s;
                       fmt = (if normalize opts then ''.2f'' else ''d'')
                   in case arr_max cm of
                        Inl e \<Rightarrow> (Inl e, s)
                      | Inr m \<Rightarrow>
                         (let thresh = fl_half m;
                              s = annotate cm fmt thresh s;
                              s = emit TightLayout s;
                              figsize = fig_size s;
                              s = set_size_inches
                                    (fst figsize * magnify opts, snd figsize * magnify opts) s;
                              s = (if truthy (image opts)
                                   then emit (Savefig (the (image opts)) (dpi opts)) s
                                   else s)
                          in (Inr cm, s))))))"

section \<open>Default options, an initial state and observations of the call log\<close>

text \<open>The default values of the keyword options, from the three signatures.\<close>

definition default_array_opts :: array_opts where
  "default_array_opts =
    \<lparr>step_size = 1, use_title = None, use_xlabel = None, use_ylabel = None,
     style_sheet = ''ggplot'', use_grid = True, width = 3, height = 1, use_dpi = 20,
     path = None, show_plot = True, use_label = PyNone, use_linestyle = ''-''\<rparr>"

definition default_dict_opts :: dict_opts where
  "default_dict_opts =
    \<lparr>step_size = 1, use_title = None, use_xlabel = None, use_ylabel = None,
     style_sheet = ''ggplot'', use_grid = True, width = 3, height = 1, use_dpi = 20,
     path = None, show_plot = True, use_linestyles = None\<rparr>"

definition default_cm_opts :: cm_opts where
  "default_cm_opts =
    \<lparr>classes = [], normalize = False, title = None, cmap = ''Blues'', image = None,
     verbose = 0, magnify = 6 / 5, dpi = 50\<rparr>"

text \<open>
  A state in which nothing has been drawn yet and two style sheets are installed, one
  of which sets the figure size.
\<close>

definition initial_plt :: plt where
  "initial_plt =
    \<lparr>style_available = [''classic'', ''ggplot''], style_rc = [(''classic'', (8, 6))],
     style_applied = [], rc_figsize = (32 / 5, 24 / 5), fig_size = (32 / 5, 24 / 5),
     calls = [], stdout = []\<rparr>"

text \<open>The calls a run has added to the log, and the arguments of selected calls.\<close>

definition new_calls :: "plt \<Rightarrow> plt \<Rightarrow> call list" where
  "new_calls s s' = drop (length (calls s)) (calls s')"

definition plot_args :: "call list \<Rightarrow> (string \<times> pyval) list" where
  "plot_args cs = concat (map (\<lambda>c. case c of Plot x y ls lbl \<Rightarrow> [(ls, lbl)] | _ \<Rightarrow> []) cs)"

definition savefig_args :: "call list \<Rightarrow> (string \<times> int) list" where
  "savefig_args cs = concat (map (\<lambda>c. case c of Savefig p d \<Rightarrow> [(p, d)] | _ \<Rightarrow> []) cs)"

definition tick_args :: "call list \<Rightarrow> ticklabels list" where
  "tick_args cs = concat (map (\<lambda>c. case c of AxSet xt yt labels h \<Rightarrow> [labels] | _ \<Rightarrow> []) cs)"

text \<open>
  The sum of the numbers of a row, taken exactly; \<open>NaN\<close> and opposite infinities
  give \<open>NaN\<close>. A row sums to one within the tolerance when its sum is a number at
  most \<open>1 / 2 ^ 50\<close> away from one.
\<close>

fun fl_add :: "fl \<Rightarrow> fl \<Rightarrow> fl" where
  "fl_add NaN b = NaN"
| "fl_add a NaN = NaN"
| "fl_add PInf NInf = NaN"
| "fl_add NInf PInf = NaN"
| "fl_add PInf b = PInf"
| "fl_add a PInf = PInf"
| "fl_add NInf b = NInf"
| "fl_add a NInf = NInf"
| "fl_add (Fin x) (Fin y) = Fin (x + y)"

definition fl_sum :: "fl list \<Rightarrow> fl" where
  "fl_sum xs = foldr fl_add xs (Fin 0)"

definition tolerance :: rat where
  "tolerance = 1 / 2 ^ 50"

definition sums_to_one :: "fl list \<Rightarrow> bool" where
  "sums_to_one row = (case fl_sum row of Fin x \<Rightarrow> \<bar>x - 1\<bar> \<le> tolerance | _ \<Rightarrow> False)"

text \<open>
  The errors by which the three functions reject their arguments: the \<^verbatim>\<open>ValueError\<close>s
  they raise themselves and the failed assertion on \<^verbatim>\<open>classes\<close>. The two
  \<^verbatim>\<open>ValueError\<close>s of the libraries are not among them.
\<close>

fun validation_error :: "error \<Rightarrow> bool" where
  "validation_error (ValueError ZeroSizeReduction) = False"
| "validation_error (ValueError (TickLabelCount positions labels)) = False"
| "validation_error (ValueError m) = True"
| "validation_error AssertionError = True"
| "validation_error e = False"

text \<open>The error of lines 61 and 148, about a line style.\<close>

fun is_linestyle_error :: "error \<Rightarrow> bool" where
  "is_linestyle_error (ValueError (LinestyleNotSupported linestyle)) = True"
| "is_linestyle_error e = False"

section \<open>The call log under the library operations\<close>

lemma calls_emit [simp]: "calls (emit c s) = calls s @ [c]"
  by (simp add: emit_def)

lemma calls_print [simp]: "calls (print p s) = calls s"
  by (simp add: print_def)

lemma calls_subplots [simp]: "calls (subplots s) = calls s @ [Subplots]"
  by (simp add: subplots_def emit_def)

lemma calls_set_size_inches [simp]:
  "calls (set_size_inches wh s) = calls s @ [SetSizeInches (fst wh) (snd wh)]"
  by (simp add: set_size_inches_def emit_def)

lemma calls_style_use [simp]: "calls (style_use name s) = calls s"
  by (simp add: style_use_def)

lemma ax_set_state: "snd (ax_set xticks yticks labels heading s)
    = emit (AxSet xticks yticks labels heading) s"
  by (simp add: ax_set_def Let_def)

lemma ax_set_Inr:
  "fst (ax_set xticks yticks labels heading s) = Inr u \<longleftrightarrow>
     tick_count labels = 0
     \<or> (tick_count labels = length xticks \<and> tick_count labels = length yticks)"
  by (auto simp add: ax_set_def Let_def)

lemma ax_set_Inl:
  "fst (ax_set xticks yticks labels heading s) = Inl e \<Longrightarrow>
     \<exists>positions n. e = ValueError (TickLabelCount positions n)"
  by (auto simp add: ax_set_def Let_def split: if_splits)

lemma calls_fold_emit: "calls (fold (\<lambda>x. emit (f x)) xs s) = calls s @ map f xs"
  by (induction xs arbitrary: s) simp_all

lemma calls_annotate:
  "calls (annotate cm fmt thresh s) = calls s @
     map (\<lambda>ij. AxText (snd ij) (fst ij) (cells cm ! fst ij ! snd ij) fmt
                  (fl_gt (cells cm ! fst ij ! snd ij) thresh))
         (List.product [0..<shape0 cm] [0..<shape1 cm])"
  unfolding annotate_def by (rule calls_fold_emit)

section \<open>Facts about the checks and the plotting loop\<close>

lemma list_not_ndarray: "isinstance_list v \<Longrightarrow> \<not> isinstance_ndarray v"
  by (cases v) simp_all

lemma py_len_list: "isinstance_list v \<Longrightarrow> \<exists>n. py_len v = Inr n"
  by (cases v) simp_all

lemma check_items_Inr:
  "check_items items = Inr u \<longleftrightarrow>
     list_all (\<lambda>kv. isinstance_str (fst kv) \<and> isinstance_list (snd kv)) items"
  by (induction items rule: check_items.induct) (auto dest: list_not_ndarray)

lemma check_items_Inl:
  "check_items items = Inl e \<Longrightarrow> e = ValueError KeysNotStrings \<or> e = ValueError ValuesNotLists"
  by (induction items rule: check_items.induct) (auto split: if_splits)

lemma check_linestyles_Inr: "check_linestyles ls = Inr u \<longleftrightarrow> set ls \<subseteq> set linestyles"
  by (induction ls) auto

lemma check_linestyles_Inl:
  "check_linestyles ls = Inl e \<Longrightarrow> \<exists>l. e = ValueError (LinestyleNotSupported l)"
  by (induction ls) (auto split: if_splits)

lemma plot_args_append [simp]: "plot_args (xs @ ys) = plot_args xs @ plot_args ys"
  by (simp add: plot_args_def)

lemma savefig_args_append [simp]: "savefig_args (xs @ ys) = savefig_args xs @ savefig_args ys"
  by (simp add: savefig_args_def)

lemma plot_series_calls:
  assumes "list_all (\<lambda>kv. isinstance_str (fst kv) \<and> isinstance_list (snd kv)) items"
  shows "\<exists>cs. plot_series step styles i items s
            = (if length items \<le> length styles - i then Inr () else Inl IndexError,
               s\<lparr>calls := calls s @ cs\<rparr>)
          \<and> plot_args cs = zip (drop i styles) (map fst items)
          \<and> savefig_args cs = []"
  using assms
proof (induction items arbitrary: i s)
  case Nil
  show ?case by (rule exI [of _ "[]"]) (simp add: plot_args_def savefig_args_def)
next
  case (Cons kv items)
  obtain k v where kv: "kv = (k, v)" by (cases kv)
  from Cons.prems kv obtain n where n: "py_len v = Inr n"
    using py_len_list by auto
  show ?case
  proof (cases "i < length styles")
    case False
    then show ?thesis
      by (intro exI [of _ "[]"]) (simp add: kv n plot_args_def savefig_args_def)
  next
    case True
    from Cons.prems have rest: "list_all (\<lambda>kv. isinstance_str (fst kv) \<and> isinstance_list (snd kv)) items"
      by simp
    let ?c = "Plot (steps_of n step) v (styles ! i) k"
    from Cons.IH [OF rest, of "Suc i" "emit ?c s"]
    obtain cs where cs: "plot_series step styles (Suc i) items (emit ?c s)
            = (if length items \<le> length styles - Suc i then Inr () else Inl IndexError,
               (emit ?c s)\<lparr>calls := calls (emit ?c s) @ cs\<rparr>)"
      and pa: "plot_args cs = zip (drop (Suc i) styles) (map fst items)"
      and sa: "savefig_args cs = []"
      by blast
    show ?thesis
    proof (intro exI [of _ "?c # cs"] conjI)
      show "plot_series step styles i (kv # items) s
            = (if length (kv # items) \<le> length styles - i then Inr () else Inl IndexError,
               s\<lparr>calls := calls s @ ?c # cs\<rparr>)"
        using True cs by (auto simp add: kv n emit_def)
      show "plot_args (?c # cs) = zip (drop i styles) (map fst (kv # items))"
        using True pa by (simp add: kv plot_args_def Cons_nth_drop_Suc [symmetric])
      show "savefig_args (?c # cs) = []"
        using sa by (simp add: savefig_args_def)
    qed
  qed
qed

lemma zip_take_right: "zip xs (take (length xs) ys) = zip xs ys"
  by (induction xs ys rule: list_induct2') simp_all

lemma savefig_args_AxText [simp]: "savefig_args (map (\<lambda>x. AxText (a x) (b x) (c x) d (e x)) xs) = []"
  by (induction xs) (simp_all add: savefig_args_def)

lemma plot_args_Nil [simp]: "plot_args [] = []"
  by (simp add: plot_args_def)

lemma plot_args_Cons [simp]:
  "plot_args (c # cs) = (case c of Plot x y ls lbl \<Rightarrow> [(ls, lbl)] | _ \<Rightarrow> []) @ plot_args cs"
  by (simp add: plot_args_def)

lemma savefig_args_Nil [simp]: "savefig_args [] = []"
  by (simp add: savefig_args_def)

lemma savefig_args_Cons [simp]:
  "savefig_args (c # cs) = (case c of Savefig p d \<Rightarrow> [(p, d)] | _ \<Rightarrow> []) @ savefig_args cs"
  by (simp add: savefig_args_def)

lemma tick_args_append [simp]: "tick_args (xs @ ys) = tick_args xs @ tick_args ys"
  by (simp add: tick_args_def)

lemma tick_args_Nil [simp]: "tick_args [] = []"
  by (simp add: tick_args_def)

lemma tick_args_Cons [simp]:
  "tick_args (c # cs) = (case c of AxSet xt yt labels h \<Rightarrow> [labels] | _ \<Rightarrow> []) @ tick_args cs"
  by (simp add: tick_args_def)

lemma tick_args_AxText [simp]: "tick_args (map (\<lambda>x. AxText (a x) (b x) (c x) d (e x)) xs) = []"
  by (induction xs) simp_all

lemma plot_array_forwards:
  assumes "plot_array array opts s = (Inr u, s')"
  shows "plot_args (new_calls s s') = [(use_linestyle opts, use_label opts)]
       \<and> savefig_args (new_calls s s')
           = (case path opts of None \<Rightarrow> [] | Some p \<Rightarrow> [(p, use_dpi opts)])"
  using assms
  by (auto simp add: plot_array_def Let_def new_calls_def
      split: if_splits sum.splits option.splits)

lemma plot_dict_forwards:
  assumes "plot_dict (PyDict items) opts s = (Inr u, s')"
  shows "plot_args (new_calls s s')
           = zip (case use_linestyles opts of None \<Rightarrow> replicate (length items) ''-'' | Some ls \<Rightarrow> ls)
                 (map fst items)
       \<and> length (plot_args (new_calls s s')) = length items
       \<and> savefig_args (new_calls s s')
           = (case path opts of None \<Rightarrow> [] | Some p \<Rightarrow> [(p, use_dpi opts)])"
proof -
  let ?styles = "case use_linestyles opts of None \<Rightarrow> replicate (length items) ''-'' | Some ls \<Rightarrow> ls"
  let ?s1 = "emit (Subplot 1 2 1) (style_use (style_sheet opts) s)"
  from assms have ci: "check_items items = Inr ()"
    by (auto simp add: plot_dict_def split: sum.splits)
  then have ok: "list_all (\<lambda>kv. isinstance_str (fst kv) \<and> isinstance_list (snd kv)) items"
    by (simp add: check_items_Inr)
  from assms ci have st: "style_sheet opts \<in> set (style_available s)"
    by (auto simp add: plot_dict_def split: if_splits)
  from assms ci st have cl: "(case use_linestyles opts of
                          None \<Rightarrow> Inr (replicate (length items) ''-'')
                        | Some ls \<Rightarrow>
                           (case check_linestyles ls of Inl e \<Rightarrow> Inl e | Inr u \<Rightarrow> Inr ls))
                     = Inr ?styles"
    by (auto simp add: plot_dict_def Let_def split: option.splits sum.splits)
  from plot_series_calls [OF ok, of "step_size opts" ?styles 0 ?s1]
  obtain cs where cs: "plot_series (step_size opts) ?styles 0 items ?s1
        = (if length items \<le> length ?styles then Inr () else Inl IndexError,
           ?s1\<lparr>calls := calls ?s1 @ cs\<rparr>)"
    and pa: "plot_args cs = zip ?styles (map fst items)"
    and sa: "savefig_args cs = []"
    by auto
  from assms have le: "length items \<le> length ?styles"
    unfolding plot_dict_def Let_def by (simp add: ci st cl cs split: if_splits)
  from assms have s': "s' =
    (let s = ?s1\<lparr>calls := calls ?s1 @ cs\<rparr>;
         s = emit (Title (use_title opts)) s;
         s = emit (Xlabel (use_xlabel opts)) s;
         s = emit (Ylabel (use_ylabel opts)) s;
         s = emit Legend s;
         s = emit (Grid (use_grid opts)) s;
         s = emit TightLayout s;
         figsize = fig_size s;
         figsize = (fst figsize * width opts, snd figsize * height opts);
         s = set_size_inches figsize s;
         s = (case path opts of
                Some p \<Rightarrow> emit (Savefig p (use_dpi opts)) s
              | None \<Rightarrow> s);
         s = (if show_plot opts then emit Show s else s)
     in s)"
    unfolding plot_dict_def by (simp add: ci st cl cs le Let_def)
  have p1: "plot_args (new_calls s s') = zip ?styles (map fst items)"
    unfolding s' Let_def new_calls_def
    by (cases "path opts"; cases "show_plot opts") (simp_all add: pa)
  have p2: "savefig_args (new_calls s s')
           = (case path opts of None \<Rightarrow> [] | Some p \<Rightarrow> [(p, use_dpi opts)])"
    unfolding s' Let_def new_calls_def
    by (cases "path opts"; cases "show_plot opts") (simp_all add: sa)
  from p1 le have p3: "length (plot_args (new_calls s s')) = length items"
    by simp
  from p1 p2 p3 show ?thesis by blast
qed

lemma plot_confusion_matrix_forwards:
  assumes "plot_confusion_matrix y_true y_pred opts s = (Inr cm, s')"
  shows "savefig_args (new_calls s s')
           = (if truthy (image opts) then [(the (image opts), dpi opts)] else [])"
proof -
  from assms have len: "length y_true = length y_pred"
    by (auto simp add: plot_confusion_matrix_def split: if_splits)
  from assms len obtain ticks where tk: "(if classes opts \<noteq> []
              then (if card (set y_true) = length (classes opts)
                    then Inr (TickNames (classes opts)) else Inl AssertionError)
              else Inr (TickSet (set y_true))) = Inr ticks"
    by (cases "classes opts = []"; cases "card (set y_true) = length (classes opts)")
      (simp_all add: plot_confusion_matrix_def)
  from assms show ?thesis
    unfolding plot_confusion_matrix_def Let_def tk
    by (cases "truthy (image opts)")
      (auto simp add: len new_calls_def calls_annotate ax_set_def Let_def
        split: sum.splits if_splits)
qed

lemma plot_series_error:
  "fst (plot_series step styles i items s) = Inl e \<Longrightarrow> e = IndexError \<or> e = TypeError"
proof (induction items arbitrary: i s)
  case Nil
  then show ?case by simp
next
  case (Cons kv items)
  obtain k v where kv: "kv = (k, v)" by (cases kv)
  show ?case
  proof (cases "py_len v")
    case (Inl e')
    then have "e' = TypeError" by (cases v) simp_all
    with Cons.prems Inl show ?thesis by (simp add: kv)
  next
    case (Inr n)
    with Cons show ?thesis by (auto simp add: kv Let_def split: if_splits)
  qed
qed

lemma py_len_error: "py_len v = Inl e \<Longrightarrow> e = TypeError"
  by (cases v) simp_all

lemma arr_max_error: "arr_max cm = Inl e \<Longrightarrow> e = ValueError ZeroSizeReduction"
  by (simp add: arr_max_def split: list.splits)

section \<open>The paths through plot_confusion_matrix\<close>

text \<open>
  Once the lengths agree and the assertion holds, a call ends in one of three ways:
  \<^verbatim>\<open>ax.set\<close> refuses the tick labels, \<^verbatim>\<open>cm.max()\<close> refuses an empty matrix, or the
  matrix is returned. In each of them \<^verbatim>\<open>ax.set\<close> has been called once.
\<close>

lemma plot_confusion_matrix_ticks:
  assumes len: "length y_true = length y_pred"
    and tk: "(if classes opts \<noteq> []
              then (if card (set y_true) = length (classes opts)
                    then Inr (TickNames (classes opts)) else Inl AssertionError)
              else Inr (TickSet (set y_true))) = Inr ticks"
  shows "tick_args (new_calls s (snd (plot_confusion_matrix y_true y_pred opts s))) = [ticks]"
proof -
  define cm where "cm = (if normalize opts
             then FloatArr (normalize_rows (confusion_matrix y_true y_pred))
             else IntArr (confusion_matrix y_true y_pred))"
  define h where "h = (if \<not> truthy (title opts)
            then (if normalize opts then ''Normalized confusion matrix''
                  else ''Confusion matrix, without normalization'')
            else the (title opts))"
  define s0 where "s0 = emit Colorbar (emit (Imshow cm (cmap opts)) (subplots
      (if 0 < verbose opts
       then print (PrintArr cm)
         (if normalize opts then print (PrintStr ''Normalized confusion matrix'') s
          else print (PrintStr ''Confusion matrix, without normalization'') s)
       else (if normalize opts then print (PrintStr ''Normalized confusion matrix'') s
          else print (PrintStr ''Confusion matrix, without normalization'') s))))"
  define ax where "ax = ax_set [0..<shape1 cm] [0..<shape0 cm] ticks h s0"
  define fmt where "fmt = (if normalize opts then ''.2f'' else ''d'')"
  have c0: "calls s0 = calls s @ [Subplots, Imshow cm (cmap opts), Colorbar]"
    by (simp add: s0_def)
  have sax: "snd ax = emit (AxSet [0..<shape1 cm] [0..<shape0 cm] ticks h) s0"
    unfolding ax_def by (rule ax_set_state)
  have p: "plot_confusion_matrix y_true y_pred opts s =
    (case ax of
       (Inl e, s) \<Rightarrow> (Inl e, s)
     | (Inr u, s) \<Rightarrow>
        (case arr_max cm of
              Inl e \<Rightarrow> (Inl e, emit (Grid False) (emit SetpXTickLabels s))
            | Inr m \<Rightarrow>
               (Inr cm,
                let s = emit TightLayout
                          (annotate cm fmt (fl_half m) (emit (Grid False) (emit SetpXTickLabels s)));
                    s = set_size_inches
                          (fst (fig_size s) * magnify opts, snd (fig_size s) * magnify opts) s
                in if truthy (image opts)
                   then emit (Savefig (the (image opts)) (dpi opts)) s
                   else s)))"
    unfolding plot_confusion_matrix_def Let_def tk ax_def s0_def h_def cm_def fmt_def
    by (simp add: len split: prod.splits sum.splits)
  show ?thesis
  proof (cases ax)
    case (Pair r s1)
    with sax have s1: "s1 = emit (AxSet [0..<shape1 cm] [0..<shape0 cm] ticks h) s0" by simp
    show ?thesis
    proof (cases r)
      case (Inl e)
      then have "snd (plot_confusion_matrix y_true y_pred opts s) = s1"
        unfolding p Pair by simp
      then show ?thesis
        unfolding s1 new_calls_def by (simp add: c0)
    next
      case (Inr u)
      show ?thesis
      proof (cases "arr_max cm")
        case (Inl e)
        then have "snd (plot_confusion_matrix y_true y_pred opts s)
            = emit (Grid False) (emit SetpXTickLabels s1)"
          unfolding p Pair by (simp add: Inr)
        then show ?thesis
          unfolding s1 new_calls_def by (simp add: c0)
      next
        case m: (Inr m)
        have "snd (plot_confusion_matrix y_true y_pred opts s)
            = (let s = emit TightLayout
                          (annotate cm fmt (fl_half m) (emit (Grid False) (emit SetpXTickLabels s1)));
                    s = set_size_inches
                          (fst (fig_size s) * magnify opts, snd (fig_size s) * magnify opts) s
                in if truthy (image opts)
                   then emit (Savefig (the (image opts)) (dpi opts)) s
                   else s)"
          unfolding p Pair by (simp add: Inr m)
        then show ?thesis
          unfolding s1 new_calls_def by (simp add: c0 Let_def calls_annotate)
      qed
    qed
  qed
qed

lemma plot_confusion_matrix_outcome:
  assumes len: "length y_true = length y_pred"
    and tk: "(if classes opts \<noteq> []
              then (if card (set y_true) = length (classes opts)
                    then Inr (TickNames (classes opts)) else Inl AssertionError)
              else Inr (TickSet (set y_true))) = Inr ticks"
  shows "(\<exists>positions n. fst (plot_confusion_matrix y_true y_pred opts s)
            = Inl (ValueError (TickLabelCount positions n)))
       \<or> fst (plot_confusion_matrix y_true y_pred opts s) = Inl (ValueError ZeroSizeReduction)
       \<or> (fst (plot_confusion_matrix y_true y_pred opts s)
            = Inr (if normalize opts
                   then FloatArr (normalize_rows (confusion_matrix y_true y_pred))
                   else IntArr (confusion_matrix y_true y_pred))
          \<and> (tick_count ticks = 0
              \<or> tick_count ticks = shape1 (if normalize opts
                   then FloatArr (normalize_rows (confusion_matrix y_true y_pred))
                   else IntArr (confusion_matrix y_true y_pred)))
          \<and> (\<exists>m. arr_max (if normalize opts
                   then FloatArr (normalize_rows (confusion_matrix y_true y_pred))
                   else IntArr (confusion_matrix y_true y_pred)) = Inr m))"
proof -
  define cm where "cm = (if normalize opts
             then FloatArr (normalize_rows (confusion_matrix y_true y_pred))
             else IntArr (confusion_matrix y_true y_pred))"
  define h where "h = (if \<not> truthy (title opts)
            then (if normalize opts then ''Normalized confusion matrix''
                  else ''Confusion matrix, without normalization'')
            else the (title opts))"
  define s0 where "s0 = emit Colorbar (emit (Imshow cm (cmap opts)) (subplots
      (if 0 < verbose opts
       then print (PrintArr cm)
         (if normalize opts then print (PrintStr ''Normalized confusion matrix'') s
          else print (PrintStr ''Confusion matrix, without normalization'') s)
       else (if normalize opts then print (PrintStr ''Normalized confusion matrix'') s
          else print (PrintStr ''Confusion matrix, without normalization'') s))))"
  define ax where "ax = ax_set [0..<shape1 cm] [0..<shape0 cm] ticks h s0"
  define fmt where "fmt = (if normalize opts then ''.2f'' else ''d'')"
  have p: "plot_confusion_matrix y_true y_pred opts s =
    (case ax of
       (Inl e, s) \<Rightarrow> (Inl e, s)
     | (Inr u, s) \<Rightarrow>
        (case arr_max cm of
              Inl e \<Rightarrow> (Inl e, emit (Grid False) (emit SetpXTickLabels s))
            | Inr m \<Rightarrow>
               (Inr cm,
                let s = emit TightLayout
                          (annotate cm fmt (fl_half m) (emit (Grid False) (emit SetpXTickLabels s)));
                    s = set_size_inches
                          (fst (fig_size s) * magnify opts, snd (fig_size s) * magnify opts) s
                in if truthy (image opts)
                   then emit (Savefig (the (image opts)) (dpi opts)) s
                   else s)))"
    unfolding plot_confusion_matrix_def Let_def tk ax_def s0_def h_def cm_def fmt_def
    by (simp add: len split: prod.splits sum.splits)
  show ?thesis
  proof (cases ax)
    case (Pair r s1)
    show ?thesis
    proof (cases r)
      case (Inl e)
      with Pair have "fst (ax_set [0..<shape1 cm] [0..<shape0 cm] ticks h s0) = Inl e"
        by (simp add: ax_def)
      from ax_set_Inl [OF this] obtain positions n
        where "e = ValueError (TickLabelCount positions n)" by blast
      with Pair Inl have "fst (plot_confusion_matrix y_true y_pred opts s)
          = Inl (ValueError (TickLabelCount positions n))"
        unfolding p by simp
      then show ?thesis by blast
    next
      case (Inr u)
      with Pair have "fst (ax_set [0..<shape1 cm] [0..<shape0 cm] ticks h s0) = Inr u"
        by (simp add: ax_def)
      then have t: "tick_count ticks = 0 \<or> tick_count ticks = shape1 cm"
        by (auto simp add: ax_set_Inr)
      show ?thesis
      proof (cases "arr_max cm")
        case (Inl e)
        with arr_max_error [OF Inl] Pair Inr
        have "fst (plot_confusion_matrix y_true y_pred opts s) = Inl (ValueError ZeroSizeReduction)"
          unfolding p by simp
        then show ?thesis by blast
      next
        case m: (Inr m)
        with Pair Inr have "fst (plot_confusion_matrix y_true y_pred opts s) = Inr cm"
          unfolding p by simp
        with t m show ?thesis
          unfolding cm_def by blast
      qed
    qed
  qed
qed

section \<open>Facts about rounding to a double\<close>

lemma round_half_even_error: "\<bar>of_int (round_half_even y) - y\<bar> \<le> 1 / 2"
proof -
  have "of_int \<lfloor>y\<rfloor> \<le> y" and "y < of_int \<lfloor>y\<rfloor> + 1"
    by linarith+
  then show ?thesis
    by (auto simp add: round_half_even_def Let_def)
qed

lemma float_exponent_bounds:
  assumes "0 < x"
  shows "2 powi float_exponent x \<le> x" and "x < 2 powi (float_exponent x + 1)"
proof -
  obtain p q where pq: "quotient_of x = (p, q)" by (cases "quotient_of x")
  then have q: "0 < q" and x: "x = of_int p / of_int q"
    by (simp_all add: quotient_of_denom_pos quotient_of_div)
  from assms q x have p: "0 < p"
    by (simp add: zero_less_divide_iff)
  let ?bp = "bitlen p" and ?bq = "bitlen q"
  from bitlen_bounds [OF p] have p1: "2 ^ nat (?bp - 1) \<le> p" and p2: "p < 2 ^ nat ?bp" by simp_all
  from bitlen_bounds [OF q] have q1: "2 ^ nat (?bq - 1) \<le> q" and q2: "q < 2 ^ nat ?bq" by simp_all
  from p p2 have bp: "1 \<le> ?bp" by (cases "?bp \<le> 0") (simp_all add: not_le)
  from q q2 have bq: "1 \<le> ?bq" by (cases "?bq \<le> 0") (simp_all add: not_le)
  have rp1: "(2::rat) powi (?bp - 1) \<le> of_int p"
  proof -
    from p1 have "(of_int (2 ^ nat (?bp - 1)) :: rat) \<le> of_int p" by (simp only: of_int_le_iff)
    with bp show ?thesis by (simp add: power_int_def)
  qed
  have rp2: "of_int p < (2::rat) powi ?bp"
  proof -
    from p2 have "(of_int p :: rat) < of_int (2 ^ nat ?bp)" by (simp only: of_int_less_iff)
    with bp show ?thesis by (simp add: power_int_def)
  qed
  have rq1: "(2::rat) powi (?bq - 1) \<le> of_int q"
  proof -
    from q1 have "(of_int (2 ^ nat (?bq - 1)) :: rat) \<le> of_int q" by (simp only: of_int_le_iff)
    with bq show ?thesis by (simp add: power_int_def)
  qed
  have rq2: "of_int q < (2::rat) powi ?bq"
  proof -
    from q2 have "(of_int q :: rat) < of_int (2 ^ nat ?bq)" by (simp only: of_int_less_iff)
    with bq show ?thesis by (simp add: power_int_def)
  qed
  let ?k = "?bp - ?bq"
  have up: "x < 2 powi (?k + 1)"
  proof -
    have "x < 2 powi ?bp / 2 powi (?bq - 1)"
      unfolding x using p q rp2 rq1 by (intro frac_less) simp_all
    also have "\<dots> = 2 powi (?bp - (?bq - 1))"
      by (simp add: power_int_diff)
    finally show ?thesis by (simp add: algebra_simps)
  qed
  have lo: "2 powi (?k - 1) \<le> x"
  proof -
    have "(2::rat) powi (?bp - 1 - ?bq) = 2 powi (?bp - 1) / 2 powi ?bq"
      by (simp add: power_int_diff)
    also have "\<dots> \<le> x"
      unfolding x using p q rp1 rq2 by (intro frac_le) simp_all
    finally show ?thesis by (simp add: algebra_simps)
  qed
  have e: "float_exponent x = (if 2 powi ?k \<le> x then ?k else ?k - 1)"
    by (simp add: float_exponent_def pq Let_def)
  show "2 powi float_exponent x \<le> x"
    using lo by (simp add: e)
  show "x < 2 powi (float_exponent x + 1)"
    using up by (simp add: e not_le)
qed

lemma round64_error:
  assumes "0 < x"
  shows "\<bar>round64 x - x\<bar> \<le> x / 2 ^ 53"
proof -
  let ?e = "float_exponent x"
  let ?ulp = "(2::rat) powi (?e - 52)"
  let ?m = "round_half_even (x / ?ulp)"
  have ulp: "0 < ?ulp" by simp
  from assms have r: "round64 x = of_int ?m * ?ulp"
    by (simp add: round64_def Let_def)
  have "\<bar>of_int ?m * ?ulp - x\<bar> = \<bar>of_int ?m - x / ?ulp\<bar> * ?ulp"
  proof -
    have "of_int ?m * ?ulp - x = (of_int ?m - x / ?ulp) * ?ulp"
      using ulp by (simp add: field_simps)
    then show ?thesis using ulp by (simp add: abs_mult)
  qed
  also have "\<dots> \<le> (1 / 2) * ?ulp"
    using round_half_even_error [of "x / ?ulp"] ulp by (intro mult_right_mono) simp_all
  also have "\<dots> = 2 powi ?e / 2 ^ 53"
  proof -
    have "(2::rat) powi (?e - 52) = 2 powi ?e / 2 powi 52"
      by (simp add: power_int_diff)
    then show ?thesis by simp
  qed
  also have "\<dots> \<le> x / 2 ^ 53"
    using float_exponent_bounds(1) [OF assms] by (simp add: divide_right_mono)
  finally show ?thesis by (simp add: r)
qed

lemma round64_zero [simp]: "round64 0 = 0"
  by (simp add: round64_def)

lemma round64_bounds:
  assumes "0 \<le> x"
  shows "(1 - 1 / 2 ^ 53) * x \<le> round64 x" and "round64 x \<le> (1 + 1 / 2 ^ 53) * x"
proof -
  have "\<bar>round64 x - x\<bar> \<le> x / 2 ^ 53"
  proof (cases "x = 0")
    case True
    then show ?thesis by simp
  next
    case False
    with assms have "0 < x" by simp
    then show ?thesis by (rule round64_error)
  qed
  then have a: "round64 x - x \<le> x / 2 ^ 53" and b: "- (round64 x - x) \<le> x / 2 ^ 53"
    by (simp_all only: abs_le_iff)
  from b show "(1 - 1 / 2 ^ 53) * x \<le> round64 x"
    by (simp add: left_diff_distrib)
  from a show "round64 x \<le> (1 + 1 / 2 ^ 53) * x"
    by (simp add: distrib_right)
qed

lemma float_of_int_bounds:
  assumes "0 \<le> c"
  shows "(1 - 1 / 2 ^ 53) * of_int c \<le> float_of_int c"
    and "float_of_int c \<le> (1 + 1 / 2 ^ 53) * of_int c"
proof -
  from assms have c: "(0::rat) \<le> of_int c" by simp
  show "(1 - 1 / 2 ^ 53) * of_int c \<le> float_of_int c"
    unfolding float_of_int_def by (rule round64_bounds(1) [OF c])
  show "float_of_int c \<le> (1 + 1 / 2 ^ 53) * of_int c"
    unfolding float_of_int_def by (rule round64_bounds(2) [OF c])
qed

text \<open>
  A count \<open>c\<close> divided by a positive sum \<open>n\<close> as line 231 does it: three roundings,
  each with a relative error of at most \<open>1 / 2 ^ 53\<close>.
\<close>

lemma quotient_bounds:
  assumes c: "0 \<le> c" and n: "0 < n"
  shows "(1 - 1 / 2 ^ 51) * (of_int c / of_int n)
           \<le> round64 (float_of_int c / float_of_int n)"
    and "round64 (float_of_int c / float_of_int n)
           \<le> (1 + 1 / 2 ^ 51) * (of_int c / of_int n)"
proof -
  define u :: rat where "u = 1 / 2 ^ 53"
  define x :: rat where "x = of_int c / of_int n"
  let ?a = "float_of_int c" and ?b = "float_of_int n"
  have u: "0 < u" "u < 1" by (simp_all add: u_def)
  from c n have x: "0 \<le> x" by (simp add: x_def)
  from n have n': "(0::rat) < of_int n" by simp
  from c have c': "(0::rat) \<le> of_int c" by simp
  from float_of_int_bounds [OF c] have a1: "(1 - u) * of_int c \<le> ?a" and a2: "?a \<le> (1 + u) * of_int c"
    by (simp_all add: u_def)
  from n have "0 \<le> n" by simp
  from float_of_int_bounds [OF this] have b1: "(1 - u) * of_int n \<le> ?b" and b2: "?b \<le> (1 + u) * of_int n"
    by (simp_all add: u_def)
  from u n' have lb: "0 < (1 - u) * of_int n" by simp
  with b1 have b: "0 < ?b" by linarith
  from u c' a1 have a: "0 \<le> ?a"
    by (meson diff_ge_0_iff_ge less_imp_le mult_nonneg_nonneg order_trans)
  from a b have q: "0 \<le> ?a / ?b" by simp
  have up: "?a / ?b \<le> (1 + u) / (1 - u) * x"
  proof -
    have "?a / ?b \<le> ((1 + u) * of_int c) / ((1 - u) * of_int n)"
      using a2 b1 lb c' u by (intro frac_le) simp_all
    then show ?thesis by (simp add: x_def)
  qed
  have lo: "(1 - u) / (1 + u) * x \<le> ?a / ?b"
  proof -
    have "((1 - u) * of_int c) / ((1 + u) * of_int n) \<le> ?a / ?b"
      using a a1 b b2 by (intro frac_le) simp_all
    then show ?thesis by (simp add: x_def)
  qed
  from round64_bounds [OF q]
  have r1: "(1 - u) * (?a / ?b) \<le> round64 (?a / ?b)" and r2: "round64 (?a / ?b) \<le> (1 + u) * (?a / ?b)"
    by (simp_all add: u_def)
  have "round64 (?a / ?b) \<le> (1 + u) * ((1 + u) / (1 - u) * x)"
    using r2 up u by (meson add_nonneg_nonneg less_imp_le mult_left_mono order_trans zero_le_one)
  also have "\<dots> = ((1 + u) * (1 + u) / (1 - u)) * x" by simp
  also have "\<dots> \<le> (1 + 1 / 2 ^ 51) * x"
    using x by (intro mult_right_mono) (simp_all add: u_def)
  finally show "round64 (?a / ?b) \<le> (1 + 1 / 2 ^ 51) * (of_int c / of_int n)"
    by (simp add: x_def)
  have "(1 - 1 / 2 ^ 51) * x \<le> ((1 - u) * (1 - u) / (1 + u)) * x"
    using x by (intro mult_right_mono) (simp_all add: u_def)
  also have "\<dots> = (1 - u) * ((1 - u) / (1 + u) * x)" by simp
  also have "\<dots> \<le> (1 - u) * (?a / ?b)"
    using lo u by (intro mult_left_mono) simp_all
  also note r1
  finally show "(1 - 1 / 2 ^ 51) * (of_int c / of_int n) \<le> round64 (?a / ?b)"
    by (simp add: x_def)
qed

lemma quotient_sum_bounds:
  assumes "\<forall>c \<in> set row. 0 \<le> c" and "0 < n"
  shows "(1 - 1 / 2 ^ 51) * (of_int (sum_list row) / of_int n)
           \<le> sum_list (map (\<lambda>c. round64 (float_of_int c / float_of_int n)) row)
       \<and> sum_list (map (\<lambda>c. round64 (float_of_int c / float_of_int n)) row)
           \<le> (1 + 1 / 2 ^ 51) * (of_int (sum_list row) / of_int n)"
  using assms(1)
proof (induction row)
  case Nil
  show ?case by simp
next
  case (Cons c row)
  then have c: "0 \<le> c" and rest: "\<forall>c \<in> set row. 0 \<le> c" by simp_all
  note q = quotient_bounds [OF c assms(2)]
  note ih = Cons.IH [OF rest]
  have split: "(of_int (sum_list (c # row)) / of_int n :: rat)
      = of_int c / of_int n + of_int (sum_list row) / of_int n"
    by (simp add: add_divide_distrib)
  show ?case
    unfolding split using q ih by (simp add: distrib_left)
qed

section \<open>Facts about the normalised matrix\<close>

text \<open>
  The row of a label that occurs in \<^verbatim>\<open>y_true\<close> sums to a positive count. A call
  returns only when the tick labels fit the ticks, that is when every label of
  \<^verbatim>\<open>y_pred\<close> occurs in \<^verbatim>\<open>y_true\<close>; then no row is divided by zero.
\<close>

lemma fl_sum_Nil [simp]: "fl_sum [] = Fin 0"
  by (simp add: fl_sum_def)

lemma fl_sum_Cons [simp]: "fl_sum (x # xs) = fl_add x (fl_sum xs)"
  by (simp add: fl_sum_def)

lemma set_unique_labels [simp]: "set (unique_labels y_true y_pred) = set y_true \<union> set y_pred"
  by (simp add: unique_labels_def)

lemma pair_count_present:
  assumes "t \<in> set y_true" and "length y_true = length y_pred"
  shows "\<exists>p \<in> set y_pred. 0 < pair_count y_true y_pred t p"
proof -
  from assms(1) obtain k where k: "k < length y_true" "y_true ! k = t"
    by (auto simp add: in_set_conv_nth)
  with assms(2) have "(t, y_pred ! k) \<in> set (zip y_true y_pred)"
    by (auto simp add: set_zip)
  then have "0 < pair_count y_true y_pred t (y_pred ! k)"
    by (force simp add: pair_count_def filter_empty_conv)
  moreover from k assms(2) have "y_pred ! k \<in> set y_pred" by simp
  ultimately show ?thesis by blast
qed

lemma sum_list_int:
  "sum_list (map (\<lambda>p. int (f p)) xs) = int (sum_list (map f xs))"
  by (induction xs) simp_all

lemma row_sum_positive:
  assumes "t \<in> set y_true" and "length y_true = length y_pred"
  shows "0 < sum_list (map (\<lambda>p. int (pair_count y_true y_pred t p)) (unique_labels y_true y_pred))"
proof -
  from pair_count_present [OF assms] obtain p where p: "p \<in> set y_pred"
    and pos: "0 < pair_count y_true y_pred t p" by blast
  let ?L = "unique_labels y_true y_pred"
  from p have "pair_count y_true y_pred t p \<in> set (map (pair_count y_true y_pred t) ?L)"
    by simp
  then have "pair_count y_true y_pred t p \<le> sum_list (map (pair_count y_true y_pred t) ?L)"
    by (rule member_le_sum_list) simp_all
  with pos have "0 < sum_list (map (pair_count y_true y_pred t) ?L)" by simp
  moreover have "sum_list (map (\<lambda>p. int (pair_count y_true y_pred t p)) ?L)
      = int (sum_list (map (pair_count y_true y_pred t) ?L))"
    by (rule sum_list_int)
  ultimately show ?thesis by simp
qed

lemma fl_sum_Fin: "fl_sum (map (\<lambda>c. Fin (f c)) xs) = Fin (sum_list (map f xs))"
  by (induction xs) simp_all

lemma normalize_row_sum:
  assumes "\<forall>c \<in> set row. 0 \<le> c" and "0 < sum_list row"
  shows "sums_to_one (normalize_row row)"
proof -
  let ?n = "sum_list row"
  let ?e = "\<lambda>c. round64 (float_of_int c / float_of_int ?n)"
  from assms(2) have "0 \<le> ?n" by simp
  from float_of_int_bounds(1) [OF this] assms(2) have "0 < float_of_int ?n"
    by (simp add: zero_less_mult_iff)
  then have r: "normalize_row row = map (\<lambda>c. Fin (?e c)) row"
    by (simp add: normalize_row_def fl_div_def)
  from assms(2) have one: "(of_int ?n / of_int ?n :: rat) = 1" by simp
  from quotient_sum_bounds [OF assms]
  have "(1 - 1 / 2 ^ 51) * 1 \<le> sum_list (map ?e row)"
    and "sum_list (map ?e row) \<le> (1 + 1 / 2 ^ 51) * 1"
    unfolding one by blast+
  then have "\<bar>sum_list (map ?e row) - 1\<bar> \<le> 1 / 2 ^ 51"
    by (simp only: mult_1_right)
  then show ?thesis
    unfolding r sums_to_one_def fl_sum_Fin by (simp add: tolerance_def)
qed

lemma length_unique_labels:
  "length (unique_labels y_true y_pred) = card (set y_true \<union> set y_pred)"
  by (simp add: unique_labels_def length_remdups_card_conv)

lemma length_confusion_matrix [simp]:
  "length (confusion_matrix y_true y_pred) = length (unique_labels y_true y_pred)"
  by (simp add: confusion_matrix_def Let_def)

lemma confusion_matrix_nth:
  assumes "i < length (unique_labels y_true y_pred)"
  shows "confusion_matrix y_true y_pred ! i
    = map (\<lambda>p. int (pair_count y_true y_pred (unique_labels y_true y_pred ! i) p))
        (unique_labels y_true y_pred)"
  using assms by (simp add: confusion_matrix_def Let_def)

lemma shape1_matrix:
  "shape1 (if b then FloatArr (normalize_rows (confusion_matrix y_true y_pred))
           else IntArr (confusion_matrix y_true y_pred))
     = length (unique_labels y_true y_pred)"
  by (cases "unique_labels y_true y_pred")
    (simp_all add: shape1_def normalize_rows_def normalize_row_def confusion_matrix_def Let_def)

lemma arr_max_matrix:
  assumes "arr_max (if b then FloatArr (normalize_rows (confusion_matrix y_true y_pred))
           else IntArr (confusion_matrix y_true y_pred)) = Inr m"
  shows "unique_labels y_true y_pred \<noteq> []"
proof
  assume "unique_labels y_true y_pred = []"
  then have "confusion_matrix y_true y_pred = []"
    by (simp add: confusion_matrix_def)
  with assms show False
    by (simp add: arr_max_def normalize_rows_def split: if_splits)
qed

lemma plot_confusion_matrix_returns:
  assumes "plot_confusion_matrix y_true y_pred opts s = (Inr cm, s')"
  shows "length y_true = length y_pred"
    and "cm = (if normalize opts
               then FloatArr (normalize_rows (confusion_matrix y_true y_pred))
               else IntArr (confusion_matrix y_true y_pred))"
    and "set y_pred \<subseteq> set y_true"
proof -
  show len: "length y_true = length y_pred"
  proof (rule ccontr)
    assume "length y_true \<noteq> length y_pred"
    then have "fst (plot_confusion_matrix y_true y_pred opts s) = Inl (ValueError LengthMismatch)"
      by (simp add: plot_confusion_matrix_def)
    with assms show False by simp
  qed
  have ok: "\<not> (classes opts \<noteq> [] \<and> card (set y_true) \<noteq> length (classes opts))"
  proof
    assume "classes opts \<noteq> [] \<and> card (set y_true) \<noteq> length (classes opts)"
    then have "fst (plot_confusion_matrix y_true y_pred opts s) = Inl AssertionError"
      by (simp add: plot_confusion_matrix_def len)
    with assms show False by simp
  qed
  define ticks where
    "ticks = (if classes opts \<noteq> [] then TickNames (classes opts) else TickSet (set y_true))"
  from ok have tk: "(if classes opts \<noteq> []
              then (if card (set y_true) = length (classes opts)
                    then Inr (TickNames (classes opts)) else Inl AssertionError)
              else Inr (TickSet (set y_true))) = Inr ticks"
    by (auto simp add: ticks_def)
  from ok have tc: "tick_count ticks = card (set y_true)"
    by (auto simp add: ticks_def)
  let ?cm = "if normalize opts
               then FloatArr (normalize_rows (confusion_matrix y_true y_pred))
               else IntArr (confusion_matrix y_true y_pred)"
  from plot_confusion_matrix_outcome [OF len tk, of s] assms
  have r: "Inr cm = Inr ?cm" and t: "tick_count ticks = 0 \<or> tick_count ticks = shape1 ?cm"
    and m: "\<exists>m. arr_max ?cm = Inr m"
    by auto
  from r show "cm = ?cm" by simp
  from m arr_max_matrix have ne: "unique_labels y_true y_pred \<noteq> []" by blast
  then have "y_true @ y_pred \<noteq> []"
    by (auto simp add: unique_labels_def)
  with len have "y_true \<noteq> []" by auto
  then have "card (set y_true) \<noteq> 0" by simp
  with t tc have "card (set y_true) = length (unique_labels y_true y_pred)"
    by (simp add: shape1_matrix)
  then have "card (set y_true) = card (set y_true \<union> set y_pred)"
    by (simp add: length_unique_labels)
  then have "set y_true = set y_true \<union> set y_pred"
    by (intro card_subset_eq) simp_all
  then show "set y_pred \<subseteq> set y_true" by blast
qed

lemma normalized_entry:
  assumes "i < length (confusion_matrix y_true y_pred)"
    and "j < length (confusion_matrix y_true y_pred ! i)"
  shows "normalize_rows (confusion_matrix y_true y_pred) ! i ! j
    = fl_div (float_of_int (confusion_matrix y_true y_pred ! i ! j))
        (float_of_int (sum_list (confusion_matrix y_true y_pred ! i)))"
  using assms by (simp add: normalize_rows_def normalize_row_def)

lemma example_normalized:
  "normalize_rows (confusion_matrix [0, 1, 1, 1] [0, 1, 0, 0])
     = [[Fin 1, Fin 0],
        [Fin (6004799503160661 / 9007199254740992), Fin (6004799503160661 / 18014398509481984)]]"
  by code_simp

section \<open>Rejection of label sequences of different lengths\<close>

text \<open>
  Claim C1. When \<^verbatim>\<open>y_true\<close> and \<^verbatim>\<open>y_pred\<close> differ in length,
  \<^verbatim>\<open>plot_confusion_matrix\<close> raises the \<^verbatim>\<open>ValueError\<close> of line 213 and the state
  of the library and of standard output is the one before the call: nothing has been
  computed, printed or rendered.
\<close>

theorem length_mismatch_rejected:
  assumes "length y_true \<noteq> length y_pred"
  shows "plot_confusion_matrix y_true y_pred opts s = (Inl (ValueError LengthMismatch), s)"
  using assms by (simp add: plot_confusion_matrix_def)

theorem length_mismatch_rejected_witness:
  "plot_confusion_matrix [0, 1, 1] [0, 1] default_cm_opts initial_plt
     = (Inl (ValueError LengthMismatch), initial_plt)"
  by (rule length_mismatch_rejected) simp

section \<open>The count matrix of the example\<close>

lemma cm_example: "confusion_matrix [0, 1, 1, 0] [0, 1, 0, 0] = [[2, 0], [1, 1]]"
  by (simp add: confusion_matrix_def unique_labels_def pair_count_def)

lemma card_example: "card (set [0, 1, 1, 0 :: int]) = 2"
  by (simp add: card_insert_if)

text \<open>
  Claim C2. For \<^verbatim>\<open>y_true = [0, 1, 1, 0]\<close> and \<^verbatim>\<open>y_pred = [0, 1, 0, 0]\<close> without
  normalisation, \<^verbatim>\<open>plot_confusion_matrix\<close> returns the integer matrix
  \<^verbatim>\<open>[[2, 0], [1, 1]]\<close>, whatever the other options and the state are, as long as the
  assertion on \<^verbatim>\<open>classes\<close> holds (no class names, or two of them).
\<close>

theorem example_counts:
  assumes "\<not> normalize opts" and "classes opts = [] \<or> length (classes opts) = 2"
  shows "fst (plot_confusion_matrix [0, 1, 1, 0] [0, 1, 0, 0] opts s)
           = Inr (IntArr [[2, 0], [1, 1]])"
  using assms card_example
  by (auto simp add: plot_confusion_matrix_def cm_example arr_max_def ax_set_def shape0_def
        shape1_def Let_def simp del: set_simps list.set)

theorem example_counts_witness:
  "fst (plot_confusion_matrix [0, 1, 1, 0] [0, 1, 0, 0] default_cm_opts initial_plt)
     = Inr (IntArr [[2, 0], [1, 1]])"
  by (rule example_counts) (simp_all add: default_cm_opts_def)

section \<open>Row sums of the normalised matrix\<close>

text \<open>
  Claim C3. A call of \<^verbatim>\<open>plot_confusion_matrix\<close> with \<^verbatim>\<open>normalize=True\<close> that
  returns, returns the count matrix with every entry divided by the sum of its row,
  in the arithmetic of doubles; no row sum is zero, and every row of the returned
  matrix sums to one within the tolerance. (The call does not return when a label
  occurs in \<^verbatim>\<open>y_pred\<close> only, the one case of a row of zeros: the tick labels, which
  come from \<^verbatim>\<open>y_true\<close>, are then fewer than the ticks.)
\<close>

theorem normalized_rows_sum_to_one:
  assumes "normalize opts"
    and "plot_confusion_matrix y_true y_pred opts s = (Inr cm, s')"
  shows "cm = FloatArr (normalize_rows (confusion_matrix y_true y_pred))
    \<and> (\<forall>i < length (confusion_matrix y_true y_pred).
         0 < sum_list (confusion_matrix y_true y_pred ! i)
         \<and> (\<forall>j < length (confusion_matrix y_true y_pred ! i).
              cells cm ! i ! j
                = fl_div (float_of_int (confusion_matrix y_true y_pred ! i ! j))
                    (float_of_int (sum_list (confusion_matrix y_true y_pred ! i)))))
    \<and> list_all sums_to_one (cells cm)"
proof -
  let ?L = "unique_labels y_true y_pred"
  let ?C = "confusion_matrix y_true y_pred"
  from plot_confusion_matrix_returns [OF assms(2)] assms(1)
  have len: "length y_true = length y_pred" and cm: "cm = FloatArr (normalize_rows ?C)"
    and sub: "set y_pred \<subseteq> set y_true"
    by simp_all
  have cells: "cells cm = normalize_rows ?C" by (simp add: cm)
  have pos: "0 < sum_list (?C ! i)" if i: "i < length ?C" for i
  proof -
    from i have iL: "i < length ?L" by simp
    then have "?L ! i \<in> set ?L" by (rule nth_mem)
    with sub have "?L ! i \<in> set y_true" by auto
    from row_sum_positive [OF this len] show ?thesis
      by (simp add: confusion_matrix_nth [OF iL])
  qed
  have entries: "\<forall>i < length ?C. 0 < sum_list (?C ! i)
         \<and> (\<forall>j < length (?C ! i).
              cells cm ! i ! j
                = fl_div (float_of_int (?C ! i ! j)) (float_of_int (sum_list (?C ! i))))"
    unfolding cells using pos by (simp add: normalized_entry)
  have "sums_to_one row" if "row \<in> set (normalize_rows ?C)" for row
  proof -
    from that obtain i where i: "i < length ?C" and row: "row = normalize_row (?C ! i)"
      by (auto simp add: normalize_rows_def in_set_conv_nth)
    from i have iL: "i < length ?L" by simp
    have "\<forall>c \<in> set (?C ! i). 0 \<le> c"
      by (auto simp add: confusion_matrix_nth [OF iL])
    from normalize_row_sum [OF this pos [OF i]] show ?thesis
      by (simp add: row)
  qed
  then have "list_all sums_to_one (cells cm)"
    unfolding cells by (simp add: list_all_iff)
  with cm entries show ?thesis by blast
qed

theorem normalized_rows_sum_to_one_witness:
  "fst (plot_confusion_matrix [0, 1, 1, 1] [0, 1, 0, 0]
          (default_cm_opts\<lparr>normalize := True\<rparr>) initial_plt)
     = Inr (FloatArr [[Fin 1, Fin 0],
        [Fin (6004799503160661 / 9007199254740992), Fin (6004799503160661 / 18014398509481984)]])
   \<and> fl_sum [Fin (6004799503160661 / 9007199254740992), Fin (6004799503160661 / 18014398509481984)]
       = Fin (18014398509481983 / 18014398509481984)
   \<and> list_all sums_to_one [[Fin 1, Fin 0],
        [Fin (6004799503160661 / 9007199254740992), Fin (6004799503160661 / 18014398509481984)]]"
proof -
  let ?m = "[[Fin 1, Fin 0],
        [Fin (6004799503160661 / 9007199254740992), Fin (6004799503160661 / 18014398509481984)]]"
  have r: "fst (plot_confusion_matrix [0, 1, 1, 1] [0, 1, 0, 0]
          (default_cm_opts\<lparr>normalize := True\<rparr>) initial_plt) = Inr (FloatArr ?m)"
    by (simp add: plot_confusion_matrix_def default_cm_opts_def Let_def example_normalized
        arr_max_def ax_set_def shape0_def shape1_def card_insert_if)
  then obtain s' where eq: "plot_confusion_matrix [0, 1, 1, 1] [0, 1, 0, 0]
          (default_cm_opts\<lparr>normalize := True\<rparr>) initial_plt = (Inr (FloatArr ?m), s')"
    by (metis prod.collapse)
  have "normalize (default_cm_opts\<lparr>normalize := True\<rparr>)" by simp
  from normalized_rows_sum_to_one [OF this eq]
  have "list_all sums_to_one (cells (FloatArr ?m))"
    by blast
  then have "list_all sums_to_one ?m" by simp
  moreover have "fl_sum [Fin (6004799503160661 / 9007199254740992),
      Fin (6004799503160661 / 18014398509481984)] = Fin (18014398509481983 / 18014398509481984)"
    by simp
  ultimately show ?thesis using r by simp
qed

section \<open>Rejection of inputs that are not lists\<close>

text \<open>
  Claim C4. An input to \<^verbatim>\<open>plot_array\<close> that is neither a list nor an array of
  values is rejected with a \<^verbatim>\<open>ValueError\<close>, and the state of the plotting library
  is left as it was: nothing is plotted.
\<close>

theorem plot_array_rejects_non_collection:
  assumes "\<not> isinstance_list array" and "\<not> isinstance_ndarray array"
  shows "plot_array array opts s = (Inl (ValueError ArrayNotList), s)"
  using assms by (simp add: plot_array_def)

theorem plot_array_rejects_non_collection_witness:
  "plot_array (PyInt 3) default_array_opts initial_plt
     = (Inl (ValueError ArrayNotList), initial_plt)"
  by (rule plot_array_rejects_non_collection) simp_all

section \<open>Rejection of unsupported style names\<close>

text \<open>
  Claim C5. A style sheet that is not in \<^verbatim>\<open>plt.style.available\<close>, or a line style
  that is not one of \<^verbatim>\<open>'-'\<close>, \<^verbatim>\<open>'--'\<close>, \<^verbatim>\<open>'-.'\<close>, \<^verbatim>\<open>':'\<close>, makes \<^verbatim>\<open>plot_array\<close>
  raise a \<^verbatim>\<open>ValueError\<close>, whatever the other arguments are; \<^verbatim>\<open>plot_dict\<close> does the
  same for an unsupported style sheet and for a \<^verbatim>\<open>use_linestyles\<close> list with an
  unsupported entry.
\<close>

theorem unsupported_styles_rejected:
  "(style_sheet aopts \<notin> set (style_available s) \<or> use_linestyle aopts \<notin> set linestyles
      \<longrightarrow> (\<exists>m. fst (plot_array array aopts s) = Inl (ValueError m)))
   \<and> (style_sheet dopts \<notin> set (style_available s)
        \<or> (\<exists>ls. use_linestyles dopts = Some ls \<and> \<not> set ls \<subseteq> set linestyles)
      \<longrightarrow> (\<exists>m. fst (plot_dict dict_arrays dopts s) = Inl (ValueError m)))"
proof (intro conjI impI)
  assume "style_sheet aopts \<notin> set (style_available s) \<or> use_linestyle aopts \<notin> set linestyles"
  then show "\<exists>m. fst (plot_array array aopts s) = Inl (ValueError m)"
    by (auto simp add: plot_array_def Let_def)
next
  assume bad: "style_sheet dopts \<notin> set (style_available s)
        \<or> (\<exists>ls. use_linestyles dopts = Some ls \<and> \<not> set ls \<subseteq> set linestyles)"
  show "\<exists>m. fst (plot_dict dict_arrays dopts s) = Inl (ValueError m)"
  proof (cases "isinstance_dict dict_arrays")
    case False
    then show ?thesis by (simp add: plot_dict_def)
  next
    case True
    then obtain items where d: "dict_arrays = PyDict items" by (cases dict_arrays) simp_all
    show ?thesis
    proof (cases "check_items items")
      case (Inl e)
      then show ?thesis using check_items_Inl [OF Inl] by (auto simp add: plot_dict_def d)
    next
      case (Inr u)
      show ?thesis
      proof (cases "style_sheet dopts \<in> set (style_available s)")
        case False
        then show ?thesis by (simp add: plot_dict_def d Inr)
      next
        case True
        with bad obtain ls where ls: "use_linestyles dopts = Some ls"
          and nsub: "\<not> set ls \<subseteq> set linestyles" by blast
        from nsub obtain e where e: "check_linestyles ls = Inl e"
          by (cases "check_linestyles ls") (auto simp add: check_linestyles_Inr)
        from check_linestyles_Inl [OF e] show ?thesis
          using True by (auto simp add: plot_dict_def d Inr ls e Let_def)
      qed
    qed
  qed
qed

theorem unsupported_styles_rejected_witness:
  "fst (plot_array (PyList [1, 2]) (default_array_opts\<lparr>style_sheet := ''neon''\<rparr>) initial_plt)
     = Inl (ValueError (StyleNotSupported ''neon'' [''classic'', ''ggplot'']))
   \<and> fst (plot_dict (PyDict [(PyStr ''loss'', PyList [1, 2])])
        (default_dict_opts\<lparr>use_linestyles := Some [''dotted'']\<rparr>) initial_plt)
     = Inl (ValueError (LinestyleNotSupported ''dotted''))"
  using unsupported_styles_rejected [where aopts = "default_array_opts\<lparr>style_sheet := ''neon''\<rparr>"
      and s = initial_plt and array = "PyList [1, 2]"
      and dopts = "default_dict_opts\<lparr>use_linestyles := Some [''dotted'']\<rparr>"
      and dict_arrays = "PyDict [(PyStr ''loss'', PyList [1, 2])]"]
  by (simp add: plot_array_def plot_dict_def default_array_opts_def default_dict_opts_def
      initial_plt_def linestyles_def style_use_def Let_def)

section \<open>What a rejected call leaves behind\<close>

text \<open>
  A call of \<^verbatim>\<open>plot_array\<close> with a list, a supported style sheet and an unsupported
  line style is rejected after \<^verbatim>\<open>plt.style.use\<close> has run (line 50 comes before
  the check of line 59): the style sheet is active afterwards, so the state of the
  library is not the one before the call.
\<close>

theorem rejection_applies_style_counterexample:
  "fst (plot_array (PyList [1, 2]) (default_array_opts\<lparr>use_linestyle := ''dotted''\<rparr>) initial_plt)
     = Inl (ValueError (LinestyleNotSupported ''dotted''))
   \<and> style_applied initial_plt = []
   \<and> style_applied (snd (plot_array (PyList [1, 2])
        (default_array_opts\<lparr>use_linestyle := ''dotted''\<rparr>) initial_plt)) = [''ggplot'']"
  by (simp add: plot_array_def default_array_opts_def initial_plt_def linestyles_def style_use_def)

text \<open>
  Claim C6, as the code has it. A call that \<^verbatim>\<open>plot_array\<close>, \<^verbatim>\<open>plot_dict\<close> or
  \<^verbatim>\<open>plot_confusion_matrix\<close> rejects with a validation error renders no figure,
  writes no file and prints nothing. When the error is the one about a line style,
  the state after the call is the state before it with \<^verbatim>\<open>plt.style.use\<close> applied to the
  requested style sheet; after every other validation error the state is the one
  before the call.
\<close>

theorem rejection_leaves_figures_alone:
  "(fst (plot_array array aopts s) = Inl e \<and> validation_error e \<longrightarrow>
      snd (plot_array array aopts s)
        = (if is_linestyle_error e then style_use (style_sheet aopts) s else s)
      \<and> calls (snd (plot_array array aopts s)) = calls s
      \<and> stdout (snd (plot_array array aopts s)) = stdout s)
   \<and> (fst (plot_dict dict_arrays dopts s) = Inl e \<and> validation_error e \<longrightarrow>
      snd (plot_dict dict_arrays dopts s)
        = (if is_linestyle_error e then style_use (style_sheet dopts) s else s)
      \<and> calls (snd (plot_dict dict_arrays dopts s)) = calls s
      \<and> stdout (snd (plot_dict dict_arrays dopts s)) = stdout s)
   \<and> (fst (plot_confusion_matrix y_true y_pred copts s) = Inl e \<and> validation_error e \<longrightarrow>
      snd (plot_confusion_matrix y_true y_pred copts s) = s)"
proof (intro conjI impI)
  assume a: "fst (plot_array array aopts s) = Inl e \<and> validation_error e"
  show "snd (plot_array array aopts s)
        = (if is_linestyle_error e then style_use (style_sheet aopts) s else s)"
  proof (cases "\<not> isinstance_list array \<or> isinstance_ndarray array")
    case True
    then have "plot_array array aopts s = (Inl (ValueError ArrayNotList), s)"
      by (simp add: plot_array_def)
    with a show ?thesis by auto
  next
    case ok: False
    then obtain xs where xs: "array = PyList xs" by (cases array) simp_all
    show ?thesis
    proof (cases "style_sheet aopts \<in> set (style_available s)")
      case False
      then have "plot_array array aopts s
          = (Inl (ValueError (StyleNotSupported (style_sheet aopts) (style_available s))), s)"
        by (simp add: plot_array_def xs)
      with a show ?thesis by auto
    next
      case st: True
      show ?thesis
      proof (cases "use_linestyle aopts \<in> set linestyles")
        case False
        then have "plot_array array aopts s
          = (Inl (ValueError (LinestyleNotSupported (use_linestyle aopts))),
             style_use (style_sheet aopts) s)"
          by (simp add: plot_array_def xs st)
        with a show ?thesis by auto
      next
        case True
        then have "fst (plot_array array aopts s) = Inr ()"
          by (simp add: plot_array_def xs st Let_def)
        with a show ?thesis by simp
      qed
    qed
  qed
  then show "calls (snd (plot_array array aopts s)) = calls s"
    and "stdout (snd (plot_array array aopts s)) = stdout s"
    by (simp_all add: style_use_def)
next
  assume h: "fst (plot_dict dict_arrays dopts s) = Inl e \<and> validation_error e"
  show "snd (plot_dict dict_arrays dopts s)
        = (if is_linestyle_error e then style_use (style_sheet dopts) s else s)"
  proof (cases "isinstance_dict dict_arrays")
    case False
    then have "plot_dict dict_arrays dopts s = (Inl (ValueError NotADictionary), s)"
      by (simp add: plot_dict_def)
    with h show ?thesis by auto
  next
    case True
    then obtain items where d: "dict_arrays = PyDict items" by (cases dict_arrays) simp_all
    show ?thesis
    proof (cases "check_items items")
      case (Inl e')
      then have "plot_dict dict_arrays dopts s = (Inl e', s)"
        by (simp add: plot_dict_def d)
      with h check_items_Inl [OF Inl] show ?thesis by auto
    next
      case ci: (Inr u)
      show ?thesis
      proof (cases "style_sheet dopts \<in> set (style_available s)")
        case False
        then have "plot_dict dict_arrays dopts s
          = (Inl (ValueError (StyleNotSupported (style_sheet dopts) (style_available s))), s)"
          by (simp add: plot_dict_def d ci)
        with h show ?thesis by auto
      next
        case st: True
        let ?r = "case use_linestyles dopts of
                          None \<Rightarrow> Inr (replicate (length items) ''-'')
                        | Some ls \<Rightarrow>
                           (case check_linestyles ls of Inl e \<Rightarrow> Inl e | Inr u \<Rightarrow> Inr ls)"
        show ?thesis
        proof (cases ?r)
          case (Inl e')
          then have r: "plot_dict dict_arrays dopts s = (Inl e', style_use (style_sheet dopts) s)"
            by (simp add: plot_dict_def d ci st Let_def)
          from Inl obtain l where "e' = ValueError (LinestyleNotSupported l)"
            by (auto split: option.splits sum.splits dest: check_linestyles_Inl)
          with h r show ?thesis by auto
        next
          case (Inr styles)
          let ?p = "plot_series (step_size dopts) styles 0 items
                      (emit (Subplot 1 2 1) (style_use (style_sheet dopts) s))"
          show ?thesis
          proof (cases "fst ?p")
            case (Inl e')
            then have "plot_dict dict_arrays dopts s = (Inl e', snd ?p)"
              by (cases ?p) (simp add: plot_dict_def d ci st Inr Let_def)
            moreover from plot_series_error [OF Inl] have "\<not> validation_error e'" by auto
            ultimately show ?thesis using h by simp
          next
            case (Inr u')
            then have "\<exists>s'. plot_dict dict_arrays dopts s = (Inr (), s')"
              by (cases ?p) (simp add: plot_dict_def d ci st \<open>?r = Inr styles\<close> Let_def)
            with h show ?thesis by auto
          qed
        qed
      qed
    qed
  qed
  then show "calls (snd (plot_dict dict_arrays dopts s)) = calls s"
    and "stdout (snd (plot_dict dict_arrays dopts s)) = stdout s"
    by (simp_all add: style_use_def)
next
  assume c: "fst (plot_confusion_matrix y_true y_pred copts s) = Inl e \<and> validation_error e"
  show "snd (plot_confusion_matrix y_true y_pred copts s) = s"
  proof (cases "length y_true = length y_pred")
    case False
    then show ?thesis by (simp add: plot_confusion_matrix_def)
  next
    case len: True
    show ?thesis
    proof (cases "classes copts \<noteq> [] \<and> card (set y_true) \<noteq> length (classes copts)")
      case True
      then show ?thesis by (simp add: plot_confusion_matrix_def len)
    next
      case False
      then have tk: "(if classes copts \<noteq> []
              then (if card (set y_true) = length (classes copts)
                    then Inr (TickNames (classes copts)) else Inl AssertionError)
              else Inr (TickSet (set y_true)))
          = Inr (if classes copts \<noteq> [] then TickNames (classes copts) else TickSet (set y_true))"
        by auto
      from plot_confusion_matrix_outcome [OF len tk, of s] c show ?thesis
        by auto
    qed
  qed
qed

theorem rejection_leaves_figures_alone_witness:
  "snd (plot_array (PyInt 3) default_array_opts initial_plt) = initial_plt
   \<and> snd (plot_array (PyList [1, 2])
        (default_array_opts\<lparr>style_sheet := ''classic'', use_linestyle := ''dotted''\<rparr>) initial_plt)
       = initial_plt\<lparr>style_applied := [''classic''], rc_figsize := (8, 6)\<rparr>
   \<and> snd (plot_dict (PyDict [(PyInt 1, PyList [1, 2])]) default_dict_opts initial_plt) = initial_plt
   \<and> snd (plot_dict (PyDict [(PyStr ''loss'', PyList [1, 2])])
        (default_dict_opts\<lparr>use_linestyles := Some [''dotted'']\<rparr>) initial_plt)
       = initial_plt\<lparr>style_applied := [''ggplot'']\<rparr>
   \<and> snd (plot_confusion_matrix [0, 1, 1] [0, 1] default_cm_opts initial_plt) = initial_plt"
proof -
  have a: "fst (plot_array (PyInt 3) default_array_opts initial_plt) = Inl (ValueError ArrayNotList)"
    by (simp add: plot_array_def)
  have l: "fst (plot_array (PyList [1, 2])
        (default_array_opts\<lparr>style_sheet := ''classic'', use_linestyle := ''dotted''\<rparr>) initial_plt)
      = Inl (ValueError (LinestyleNotSupported ''dotted''))"
    by (simp add: plot_array_def default_array_opts_def initial_plt_def linestyles_def)
  have d: "fst (plot_dict (PyDict [(PyInt 1, PyList [1, 2])]) default_dict_opts initial_plt)
             = Inl (ValueError KeysNotStrings)"
    by (simp add: plot_dict_def)
  have k: "fst (plot_dict (PyDict [(PyStr ''loss'', PyList [1, 2])])
        (default_dict_opts\<lparr>use_linestyles := Some [''dotted'']\<rparr>) initial_plt)
      = Inl (ValueError (LinestyleNotSupported ''dotted''))"
    by (simp add: plot_dict_def default_dict_opts_def initial_plt_def linestyles_def)
  have c: "fst (plot_confusion_matrix [0, 1, 1] [0, 1] default_cm_opts initial_plt)
             = Inl (ValueError LengthMismatch)"
    by (simp add: plot_confusion_matrix_def)
  have a': "snd (plot_array (PyInt 3) default_array_opts initial_plt) = initial_plt"
    using rejection_leaves_figures_alone [where e = "ValueError ArrayNotList" and array = "PyInt 3"
        and aopts = default_array_opts and s = initial_plt] a
    by simp
  have l': "snd (plot_array (PyList [1, 2])
        (default_array_opts\<lparr>style_sheet := ''classic'', use_linestyle := ''dotted''\<rparr>) initial_plt)
       = initial_plt\<lparr>style_applied := [''classic''], rc_figsize := (8, 6)\<rparr>"
    using rejection_leaves_figures_alone [where e = "ValueError (LinestyleNotSupported ''dotted'')"
        and array = "PyList [1, 2]"
        and aopts = "default_array_opts\<lparr>style_sheet := ''classic'', use_linestyle := ''dotted''\<rparr>"
        and s = initial_plt] l
    by (simp add: style_use_def default_array_opts_def initial_plt_def)
  have d': "snd (plot_dict (PyDict [(PyInt 1, PyList [1, 2])]) default_dict_opts initial_plt)
              = initial_plt"
    using rejection_leaves_figures_alone [where e = "ValueError KeysNotStrings"
        and dict_arrays = "PyDict [(PyInt 1, PyList [1, 2])]"
        and dopts = default_dict_opts and s = initial_plt] d
    by simp
  have k': "snd (plot_dict (PyDict [(PyStr ''loss'', PyList [1, 2])])
        (default_dict_opts\<lparr>use_linestyles := Some [''dotted'']\<rparr>) initial_plt)
       = initial_plt\<lparr>style_applied := [''ggplot'']\<rparr>"
    using rejection_leaves_figures_alone [where e = "ValueError (LinestyleNotSupported ''dotted'')"
        and dict_arrays = "PyDict [(PyStr ''loss'', PyList [1, 2])]"
        and dopts = "default_dict_opts\<lparr>use_linestyles := Some [''dotted'']\<rparr>"
        and s = initial_plt] k
    by (simp add: style_use_def default_dict_opts_def initial_plt_def)
  have c': "snd (plot_confusion_matrix [0, 1, 1] [0, 1] default_cm_opts initial_plt) = initial_plt"
    using rejection_leaves_figures_alone [where e = "ValueError LengthMismatch"
        and y_true = "[0, 1, 1]" and y_pred = "[0, 1]" and copts = default_cm_opts
        and s = initial_plt] c
    by simp
  from a' l' d' k' c' show ?thesis by simp
qed

section \<open>Options are handed on unchanged\<close>

text \<open>
  Claim C7. In every call that returns normally, \<^verbatim>\<open>plot_array\<close> makes one line-plot
  call, with \<^verbatim>\<open>use_linestyle\<close> and \<^verbatim>\<open>use_label\<close> as given, and \<^verbatim>\<open>plot_dict\<close>
  makes one line-plot call per item, in order, with the item's key as label and the
  line style at the item's position (\<^verbatim>\<open>'-'\<close> when no list was given). Both save the
  figure exactly when \<^verbatim>\<open>path\<close> is given, with \<^verbatim>\<open>path\<close> and \<^verbatim>\<open>use_dpi\<close> as given;
  \<^verbatim>\<open>plot_confusion_matrix\<close> saves exactly when \<^verbatim>\<open>image\<close> is a non-empty string,
  with \<^verbatim>\<open>image\<close> and \<^verbatim>\<open>dpi\<close> as given.
\<close>

theorem options_forwarded:
  "(plot_array array aopts s = (Inr u, sa) \<longrightarrow>
      plot_args (new_calls s sa) = [(use_linestyle aopts, use_label aopts)]
      \<and> savefig_args (new_calls s sa)
          = (case path aopts of None \<Rightarrow> [] | Some p \<Rightarrow> [(p, use_dpi aopts)]))
   \<and> (plot_dict (PyDict items) dopts s = (Inr u, sd) \<longrightarrow>
      plot_args (new_calls s sd)
          = zip (case use_linestyles dopts of
                   None \<Rightarrow> replicate (length items) ''-'' | Some ls \<Rightarrow> ls)
                (map fst items)
      \<and> length (plot_args (new_calls s sd)) = length items
      \<and> savefig_args (new_calls s sd)
          = (case path dopts of None \<Rightarrow> [] | Some p \<Rightarrow> [(p, use_dpi dopts)]))
   \<and> (plot_confusion_matrix y_true y_pred copts s = (Inr cm, sc) \<longrightarrow>
      savefig_args (new_calls s sc)
          = (if truthy (image copts) then [(the (image copts), dpi copts)] else []))"
  using plot_array_forwards [of array aopts s u sa]
    plot_dict_forwards [of items dopts s u sd]
    plot_confusion_matrix_forwards [of y_true y_pred copts s cm sc]
  by blast

theorem options_forwarded_witness:
  "plot_args (new_calls initial_plt (snd (plot_array (PyList [1, 2])
       (default_array_opts\<lparr>use_label := PyStr ''loss'', use_linestyle := ''--'',
          path := Some ''a.png'', use_dpi := 100\<rparr>) initial_plt)))
     = [(''--'', PyStr ''loss'')]
   \<and> savefig_args (new_calls initial_plt (snd (plot_array (PyList [1, 2])
       (default_array_opts\<lparr>use_label := PyStr ''loss'', use_linestyle := ''--'',
          path := Some ''a.png'', use_dpi := 100\<rparr>) initial_plt)))
     = [(''a.png'', 100)]
   \<and> plot_args (new_calls initial_plt (snd (plot_dict
       (PyDict [(PyStr ''loss'', PyList [1, 2]), (PyStr ''acc'', PyList [3, 4])])
       (default_dict_opts\<lparr>use_linestyles := Some [''--'', '':''], path := Some ''b.png''\<rparr>)
       initial_plt)))
     = [(''--'', PyStr ''loss''), ('':'', PyStr ''acc'')]
   \<and> savefig_args (new_calls initial_plt (snd (plot_dict
       (PyDict [(PyStr ''loss'', PyList [1, 2]), (PyStr ''acc'', PyList [3, 4])])
       (default_dict_opts\<lparr>use_linestyles := Some [''--'', '':''], path := Some ''b.png''\<rparr>)
       initial_plt)))
     = [(''b.png'', 20)]
   \<and> savefig_args (new_calls initial_plt (snd (plot_confusion_matrix [0, 1, 1, 0] [0, 1, 0, 0]
       (default_cm_opts\<lparr>image := Some ''cm.png'', dpi := 80\<rparr>) initial_plt)))
     = [(''cm.png'', 80)]"
proof -
  let ?a = "plot_array (PyList [1, 2])
       (default_array_opts\<lparr>use_label := PyStr ''loss'', use_linestyle := ''--'',
          path := Some ''a.png'', use_dpi := 100\<rparr>) initial_plt"
  let ?d = "plot_dict
       (PyDict [(PyStr ''loss'', PyList [1, 2]), (PyStr ''acc'', PyList [3, 4])])
       (default_dict_opts\<lparr>use_linestyles := Some [''--'', '':''], path := Some ''b.png''\<rparr>)
       initial_plt"
  let ?c = "plot_confusion_matrix [0, 1, 1, 0] [0, 1, 0, 0]
       (default_cm_opts\<lparr>image := Some ''cm.png'', dpi := 80\<rparr>) initial_plt"
  have a: "?a = (Inr (), snd ?a)"
    by (simp add: plot_array_def default_array_opts_def initial_plt_def linestyles_def
        style_use_def Let_def)
  have d: "?d = (Inr (), snd ?d)"
    by (simp add: plot_dict_def default_dict_opts_def initial_plt_def linestyles_def
        style_use_def Let_def emit_def)
  have c: "?c = (Inr (IntArr [[2, 0], [1, 1]]), snd ?c)"
    by (simp add: plot_confusion_matrix_def default_cm_opts_def cm_example arr_max_def
        ax_set_def shape0_def shape1_def card_insert_if Let_def)
  from options_forwarded [where array = "PyList [1, 2]" and s = initial_plt and u = "()"
      and aopts = "default_array_opts\<lparr>use_label := PyStr ''loss'', use_linestyle := ''--'',
          path := Some ''a.png'', use_dpi := 100\<rparr>"
      and sa = "snd ?a"
      and items = "[(PyStr ''loss'', PyList [1, 2]), (PyStr ''acc'', PyList [3, 4])]"
      and dopts = "default_dict_opts\<lparr>use_linestyles := Some [''--'', '':''], path := Some ''b.png''\<rparr>"
      and sd = "snd ?d"
      and y_true = "[0, 1, 1, 0]" and y_pred = "[0, 1, 0, 0]"
      and copts = "default_cm_opts\<lparr>image := Some ''cm.png'', dpi := 80\<rparr>"
      and cm = "IntArr [[2, 0], [1, 1]]" and sc = "snd ?c"]
  have "(plot_args (new_calls initial_plt (snd ?a))
          = [(use_linestyle (default_array_opts\<lparr>use_label := PyStr ''loss'', use_linestyle := ''--'',
                path := Some ''a.png'', use_dpi := 100\<rparr>),
              use_label (default_array_opts\<lparr>use_label := PyStr ''loss'', use_linestyle := ''--'',
                path := Some ''a.png'', use_dpi := 100\<rparr>))]
      \<and> savefig_args (new_calls initial_plt (snd ?a))
          = (case path (default_array_opts\<lparr>use_label := PyStr ''loss'', use_linestyle := ''--'',
                path := Some ''a.png'', use_dpi := 100\<rparr>) of None \<Rightarrow> []
             | Some p \<Rightarrow> [(p, use_dpi (default_array_opts\<lparr>use_label := PyStr ''loss'',
                use_linestyle := ''--'', path := Some ''a.png'', use_dpi := 100\<rparr>))]))
   \<and> (plot_args (new_calls initial_plt (snd ?d))
          = zip (case use_linestyles (default_dict_opts\<lparr>use_linestyles := Some [''--'', '':''],
                   path := Some ''b.png''\<rparr>) of
                   None \<Rightarrow> replicate (length [(PyStr ''loss'', PyList [1, 2]), (PyStr ''acc'', PyList [3, 4])]) ''-''
                 | Some ls \<Rightarrow> ls)
                (map fst [(PyStr ''loss'', PyList [1, 2]), (PyStr ''acc'', PyList [3, 4])])
      \<and> length (plot_args (new_calls initial_plt (snd ?d)))
          = length [(PyStr ''loss'', PyList [1, 2]), (PyStr ''acc'', PyList [3, 4])]
      \<and> savefig_args (new_calls initial_plt (snd ?d))
          = (case path (default_dict_opts\<lparr>use_linestyles := Some [''--'', '':''],
                   path := Some ''b.png''\<rparr>) of None \<Rightarrow> []
             | Some p \<Rightarrow> [(p, use_dpi (default_dict_opts\<lparr>use_linestyles := Some [''--'', '':''],
                   path := Some ''b.png''\<rparr>))]))
   \<and> savefig_args (new_calls initial_plt (snd ?c))
          = (if truthy (image (default_cm_opts\<lparr>image := Some ''cm.png'', dpi := 80\<rparr>))
             then [(the (image (default_cm_opts\<lparr>image := Some ''cm.png'', dpi := 80\<rparr>)),
                    dpi (default_cm_opts\<lparr>image := Some ''cm.png'', dpi := 80\<rparr>))]
             else [])"
    using a d c by blast
  then show ?thesis
    by (simp add: default_array_opts_def default_dict_opts_def default_cm_opts_def)
qed

section \<open>Arrays of numpy\<close>

lemma check_items_ndarray:
  assumes "(k, PyNdarray ys) \<in> set items"
  shows "check_items items = Inl (ValueError KeysNotStrings)
       \<or> check_items items = Inl (ValueError ValuesNotLists)"
  using assms by (induction items rule: check_items.induct) auto

lemma check_items_ndarray_str:
  assumes "(k, PyNdarray ys) \<in> set items" and "list_all (\<lambda>kv. isinstance_str (fst kv)) items"
  shows "check_items items = Inl (ValueError ValuesNotLists)"
  using assms by (induction items rule: check_items.induct) auto

text \<open>
  Claim C8. \<^verbatim>\<open>plot_array\<close> raises its \<^verbatim>\<open>ValueError\<close> for every numpy array, and
  nothing is plotted. \<^verbatim>\<open>plot_dict\<close> does the same for a dictionary one of whose values
  is a numpy array: it raises one of the two \<^verbatim>\<open>ValueError\<close>s of its loop over the
  items, the one about the values when every key is a string, and plots nothing.
\<close>

theorem ndarray_rejected:
  "plot_array (PyNdarray xs) aopts s = (Inl (ValueError ArrayNotList), s)
   \<and> ((k, PyNdarray ys) \<in> set items \<longrightarrow>
        (plot_dict (PyDict items) dopts s = (Inl (ValueError KeysNotStrings), s)
         \<or> plot_dict (PyDict items) dopts s = (Inl (ValueError ValuesNotLists), s))
        \<and> (list_all (\<lambda>kv. isinstance_str (fst kv)) items \<longrightarrow>
             plot_dict (PyDict items) dopts s = (Inl (ValueError ValuesNotLists), s)))"
proof (intro conjI impI)
  show "plot_array (PyNdarray xs) aopts s = (Inl (ValueError ArrayNotList), s)"
    by (simp add: plot_array_def)
next
  assume m: "(k, PyNdarray ys) \<in> set items"
  from check_items_ndarray [OF m]
  show "plot_dict (PyDict items) dopts s = (Inl (ValueError KeysNotStrings), s)
         \<or> plot_dict (PyDict items) dopts s = (Inl (ValueError ValuesNotLists), s)"
    by (auto simp add: plot_dict_def)
next
  assume m: "(k, PyNdarray ys) \<in> set items"
    and str: "list_all (\<lambda>kv. isinstance_str (fst kv)) items"
  from check_items_ndarray_str [OF m str]
  show "plot_dict (PyDict items) dopts s = (Inl (ValueError ValuesNotLists), s)"
    by (simp add: plot_dict_def)
qed

theorem ndarray_rejected_witness:
  "plot_array (PyNdarray [1, 2]) default_array_opts initial_plt
     = (Inl (ValueError ArrayNotList), initial_plt)
   \<and> plot_dict (PyDict [(PyStr ''loss'', PyList [1, 2]), (PyStr ''acc'', PyNdarray [3])])
        default_dict_opts initial_plt
     = (Inl (ValueError ValuesNotLists), initial_plt)"
  using ndarray_rejected [of "[1, 2]" default_array_opts initial_plt "PyStr ''acc''" "[3]"
      "[(PyStr ''loss'', PyList [1, 2]), (PyStr ''acc'', PyNdarray [3])]" default_dict_opts]
  by simp

section \<open>Fewer line styles than series\<close>

text \<open>
  Claim C9. Let \<^verbatim>\<open>dict_arrays\<close> be a dictionary with string keys and list values,
  \<^verbatim>\<open>style_sheet\<close> a supported style, and \<^verbatim>\<open>use_linestyles\<close> a list of supported
  line styles that is shorter than the dictionary. Then \<^verbatim>\<open>plot_dict\<close> passes every
  check and fails with an \<^verbatim>\<open>IndexError\<close> in the plotting loop: the series that have
  a line style are plotted, in order, and the first series without one raises.
\<close>

theorem short_linestyles_index_error:
  assumes "list_all (\<lambda>kv. isinstance_str (fst kv) \<and> isinstance_list (snd kv)) items"
    and "style_sheet opts \<in> set (style_available s)"
    and "use_linestyles opts = Some ls"
    and "set ls \<subseteq> set linestyles"
    and "length ls < length items"
  shows "fst (plot_dict (PyDict items) opts s) = Inl IndexError
       \<and> plot_args (new_calls s (snd (plot_dict (PyDict items) opts s)))
           = zip ls (map fst (take (length ls) items))"
proof -
  from assms(1) have ci: "check_items items = Inr ()"
    by (simp add: check_items_Inr)
  from assms(4) have cl: "check_linestyles ls = Inr ()"
    by (simp add: check_linestyles_Inr)
  let ?s1 = "emit (Subplot 1 2 1) (style_use (style_sheet opts) s)"
  from plot_series_calls [OF assms(1), of "step_size opts" ls 0 ?s1]
  obtain cs where cs: "plot_series (step_size opts) ls 0 items ?s1
        = (Inl IndexError, ?s1\<lparr>calls := calls ?s1 @ cs\<rparr>)"
    and pa: "plot_args cs = zip ls (map fst items)"
    using assms(5) by auto
  have r: "plot_dict (PyDict items) opts s = (Inl IndexError, ?s1\<lparr>calls := calls ?s1 @ cs\<rparr>)"
    using ci cl assms(2,3) cs by (simp add: plot_dict_def Let_def)
  have z: "zip ls (map fst items) = zip ls (map fst (take (length ls) items))"
    by (simp add: take_map [symmetric] del: take_map) (metis zip_take_right length_map)
  show ?thesis
    using pa z by (simp add: r new_calls_def plot_args_def)
qed

theorem short_linestyles_index_error_witness:
  "fst (plot_dict (PyDict [(PyStr ''loss'', PyList [1, 2]), (PyStr ''acc'', PyList [3, 4])])
        (default_dict_opts\<lparr>use_linestyles := Some [''--'']\<rparr>) initial_plt)
     = Inl IndexError
   \<and> plot_args (new_calls initial_plt
        (snd (plot_dict (PyDict [(PyStr ''loss'', PyList [1, 2]), (PyStr ''acc'', PyList [3, 4])])
           (default_dict_opts\<lparr>use_linestyles := Some [''--'']\<rparr>) initial_plt)))
     = [(''--'', PyStr ''loss'')]"
  using short_linestyles_index_error [where
      items = "[(PyStr ''loss'', PyList [1, 2]), (PyStr ''acc'', PyList [3, 4])]"
      and opts = "default_dict_opts\<lparr>use_linestyles := Some [''--'']\<rparr>"
      and s = initial_plt and ls = "[''--'']"]
  by (simp add: default_dict_opts_def initial_plt_def linestyles_def)

section \<open>The assertion on the class names\<close>

text \<open>
  Claim C10. With label sequences of equal length, a non-empty \<^verbatim>\<open>classes\<close> whose
  length is not the number of distinct labels of \<^verbatim>\<open>y_true\<close> makes
  \<^verbatim>\<open>plot_confusion_matrix\<close> fail with an \<^verbatim>\<open>AssertionError\<close>, not a
  \<^verbatim>\<open>ValueError\<close>, before anything is printed or rendered. With an empty
  \<^verbatim>\<open>classes\<close> the tick labels handed to the axes are \<^verbatim>\<open>set(y_true)\<close>.
\<close>

theorem classes_assertion:
  "(length y_true = length y_pred \<and> classes opts \<noteq> []
      \<and> length (classes opts) \<noteq> card (set y_true)
      \<longrightarrow> plot_confusion_matrix y_true y_pred opts s = (Inl AssertionError, s))
   \<and> (length y_true = length y_pred \<and> classes opts = []
      \<longrightarrow> tick_args (new_calls s (snd (plot_confusion_matrix y_true y_pred opts s)))
            = [TickSet (set y_true)])"
proof (intro conjI impI)
  assume "length y_true = length y_pred \<and> classes opts \<noteq> []
      \<and> length (classes opts) \<noteq> card (set y_true)"
  then show "plot_confusion_matrix y_true y_pred opts s = (Inl AssertionError, s)"
    by (auto simp add: plot_confusion_matrix_def)
next
  assume "length y_true = length y_pred \<and> classes opts = []"
  then show "tick_args (new_calls s (snd (plot_confusion_matrix y_true y_pred opts s)))
            = [TickSet (set y_true)]"
    by (intro plot_confusion_matrix_ticks) simp_all
qed

theorem classes_assertion_witness:
  "plot_confusion_matrix [0, 1, 1] [0, 1, 0]
       (default_cm_opts\<lparr>classes := [''a'', ''b'', ''c'']\<rparr>) initial_plt
     = (Inl AssertionError, initial_plt)
   \<and> tick_args (new_calls initial_plt
        (snd (plot_confusion_matrix [0, 1, 1] [0, 1, 0] default_cm_opts initial_plt)))
     = [TickSet (set [0, 1, 1])]"
  using classes_assertion [of "[0, 1, 1]" "[0, 1, 0]"
          "default_cm_opts\<lparr>classes := [''a'', ''b'', ''c'']\<rparr>" initial_plt]
        classes_assertion [of "[0, 1, 1]" "[0, 1, 0]" default_cm_opts initial_plt]
  by (simp add: default_cm_opts_def card_insert_if)

end
